theory Spec2Isabelle
  imports Complex_Main "HOL-Library.Sublist"
begin

section \<open>Python values and strings\<close>

text \<open>
  The service is Python glue code between a voice platform, pydantic and the Google
  Calendar client.  Python \<open>str\<close> values are modelled as \<^typ>\<open>string\<close>, one
  \<^typ>\<open>char\<close> per code point (so only code points below 256 are representable; the
  em dash and the middle dots of the event description are written as their UTF-8 bytes).
  The raised exceptions are values of \<open>py_exn\<close>; a computation that may raise returns
  \<open>py_exn + 'a\<close>, with \<open>Inl\<close> for the exception.
\<close>

datatype py_exn =
    JSONDecodeError string
  | UnicodeDecodeError string
  | ValidationError string
  | ValueError string
  | HTTPException nat string
  | HttpError string
  | TypeError string
  | AttributeError string
  | KeyError string
  | IndexError string
  | UnboundLocalError string
  | OtherException string

text \<open>
  \<open>except ValueError\<close> also catches the subclasses of \<open>ValueError\<close>:
  \<open>json.JSONDecodeError\<close>, \<open>UnicodeDecodeError\<close> and pydantic's \<open>ValidationError\<close>.
\<close>

fun is_ValueError :: "py_exn \<Rightarrow> bool" where
  "is_ValueError (JSONDecodeError m) = True"
| "is_ValueError (UnicodeDecodeError m) = True"
| "is_ValueError (ValidationError m) = True"
| "is_ValueError (ValueError m) = True"
| "is_ValueError e = False"

text \<open>\<open>str(e)\<close>; for an \<open>HTTPException\<close> the text kept is its \<open>detail\<close>.\<close>

fun exn_str :: "py_exn \<Rightarrow> string" where
  "exn_str (JSONDecodeError m) = m"
| "exn_str (UnicodeDecodeError m) = m"
| "exn_str (ValidationError m) = m"
| "exn_str (ValueError m) = m"
| "exn_str (HTTPException c m) = m"
| "exn_str (HttpError m) = m"
| "exn_str (TypeError m) = m"
| "exn_str (AttributeError m) = m"
| "exn_str (KeyError m) = m"
| "exn_str (IndexError m) = m"
| "exn_str (UnboundLocalError m) = m"
| "exn_str (OtherException m) = m"

definition bind_exn :: "py_exn + 'a \<Rightarrow> ('a \<Rightarrow> py_exn + 'b) \<Rightarrow> py_exn + 'b" where
  "bind_exn m f = (case m of Inl e \<Rightarrow> Inl e | Inr x \<Rightarrow> f x)"

text \<open>\<open>sub in s\<close> on strings: \<open>sub\<close> occurs in \<open>s\<close> as a contiguous block.\<close>

fun contains :: "string \<Rightarrow> string \<Rightarrow> bool" where
  "contains [] sub = (sub = [])"
| "contains (c # cs) sub = (prefix sub (c # cs) \<or> contains cs sub)"

text \<open>\<open>sep.join(xs)\<close>.\<close>

fun join :: "string \<Rightarrow> string list \<Rightarrow> string" where
  "join sep [] = []"
| "join sep [x] = x"
| "join sep (x # y # ys) = x @ sep @ join sep (y # ys)"

definition newline :: string where
  "newline = [CHR 0x0A]"

section \<open>Configuration (app/config.py)\<close>

text \<open>
  The module-level settings read by \<open>validate_config\<close>.  \<open>os.getenv(NAME)\<close> is
  \<open>None\<close> when the variable is unset; \<open>ENVIRONMENT\<close>, \<open>BACKEND_URL\<close> and
  \<open>DEFAULT_TIMEZONE\<close> have a default and are always strings.
\<close>

record config =
  ENVIRONMENT :: string
  VAPI_API_KEY :: "string option"
  VAPI_API_PUBLIC_KEY :: "string option"
  GOOGLE_CLIENT_ID :: "string option"
  GOOGLE_CLIENT_SECRET :: "string option"
  GOOGLE_REDIRECT_URI :: "string option"
  YOUR_EMAIL :: "string option"
  BACKEND_URL :: string
  DEFAULT_TIMEZONE :: string

text \<open>\<open>not var_value\<close>: the value is \<open>None\<close> or the empty string.\<close>

fun not_set :: "string option \<Rightarrow> bool" where
  "not_set None = True"
| "not_set (Some v) = (v = [])"

definition required_vars :: "config \<Rightarrow> (string \<times> string option) list" where
  "required_vars c =
     [(''VAPI_API_KEY'', VAPI_API_KEY c),
      (''VAPI_API_PUBLIC_KEY'', VAPI_API_PUBLIC_KEY c),
      (''GOOGLE_CLIENT_ID'', GOOGLE_CLIENT_ID c),
      (''GOOGLE_CLIENT_SECRET'', GOOGLE_CLIENT_SECRET c),
      (''GOOGLE_REDIRECT_URI'', GOOGLE_REDIRECT_URI c),
      (''YOUR_EMAIL'', YOUR_EMAIL c),
      (''BACKEND_URL'', Some (BACKEND_URL c))]"

text \<open>The loop over \<open>required_vars\<close>, appending one line per missing variable.\<close>

fun collect_errors :: "(string \<times> string option) list \<Rightarrow> string list \<Rightarrow> string list" where
  "collect_errors [] errors = errors"
| "collect_errors ((var_name, var_value) # rest) errors =
     collect_errors rest
       (if not_set var_value
        then errors @ [''Missing required environment variable: '' @ var_name]
        else errors)"

definition validate_config :: "config \<Rightarrow> py_exn + unit" where
  "validate_config c =
     (let errors = (if ENVIRONMENT c = ''production''
                    then collect_errors (required_vars c) []
                    else [])
      in if errors \<noteq> []
         then Inl (ValueError (''Configuration validation failed:'' @ newline @ join newline errors))
         else Inr ())"

subsection \<open>Example configurations\<close>

text \<open>
  A production configuration in which \<open>VAPI_API_KEY\<close> is unset and \<open>YOUR_EMAIL\<close>
  is set to the empty string, and a development configuration with nothing set.
\<close>

definition production_config :: config where
  "production_config =
     \<lparr>ENVIRONMENT = ''production'',
      VAPI_API_KEY = None,
      VAPI_API_PUBLIC_KEY = Some ''pk'',
      GOOGLE_CLIENT_ID = Some ''id'',
      GOOGLE_CLIENT_SECRET = Some ''secret'',
      GOOGLE_REDIRECT_URI = Some ''https://api.example.com/auth/callback'',
      YOUR_EMAIL = Some [],
      BACKEND_URL = ''https://api.example.com'',
      DEFAULT_TIMEZONE = ''America/Los_Angeles''\<rparr>"

definition development_config :: config where
  "development_config =
     \<lparr>ENVIRONMENT = ''development'',
      VAPI_API_KEY = None,
      VAPI_API_PUBLIC_KEY = None,
      GOOGLE_CLIENT_ID = None,
      GOOGLE_CLIENT_SECRET = None,
      GOOGLE_REDIRECT_URI = None,
      YOUR_EMAIL = None,
      BACKEND_URL = ''http://localhost:8000'',
      DEFAULT_TIMEZONE = ''America/Los_Angeles''\<rparr>"

section \<open>JSON values and the Python operations on them\<close>

text \<open>
  What \<open>json.loads\<close> returns: \<open>None\<close>, \<open>bool\<close>, \<open>int\<close>, \<open>float\<close>, \<open>str\<close>,
  \<open>list\<close> and \<open>dict\<close> (keys are strings, in insertion order; a key is looked up
  with \<^const>\<open>map_of\<close>).  Python's \<open>None\<close> is \<open>JNull\<close>.
\<close>

datatype pyfloat = Finite rat | NaN | Infinity bool

datatype json =
    JNull
  | JBool bool
  | JInt int
  | JFloat pyfloat
  | JStr string
  | JArr "json list"
  | JObj "(string \<times> json) list"

text \<open>Truth value testing: \<open>if x\<close>, \<open>not x\<close>.\<close>

fun truthy :: "json \<Rightarrow> bool" where
  "truthy JNull = False"
| "truthy (JBool b) = b"
| "truthy (JInt i) = (i \<noteq> 0)"
| "truthy (JFloat f) = (f \<noteq> Finite 0)"
| "truthy (JStr s) = (s \<noteq> [])"
| "truthy (JArr xs) = (xs \<noteq> [])"
| "truthy (JObj kv) = (kv \<noteq> [])"

text \<open>
  \<open>key in x\<close> for a string \<open>key\<close>: a key of a dict, an element of a list, a substring
  of a string; \<open>TypeError\<close> on the values that are not iterable.
\<close>

fun py_in :: "string \<Rightarrow> json \<Rightarrow> py_exn + bool" where
  "py_in k (JObj kv) = Inr (map_of kv k \<noteq> None)"
| "py_in k (JArr xs) = Inr (List.member xs (JStr k))"
| "py_in k (JStr s) = Inr (contains s k)"
| "py_in k x = Inl (TypeError ''argument is not iterable'')"

text \<open>\<open>x[key]\<close> for a string \<open>key\<close>.\<close>

fun py_getitem :: "json \<Rightarrow> string \<Rightarrow> py_exn + json" where
  "py_getitem (JObj kv) k = (case map_of kv k of None \<Rightarrow> Inl (KeyError k) | Some v \<Rightarrow> Inr v)"
| "py_getitem (JArr xs) k = Inl (TypeError ''list indices must be integers or slices, not str'')"
| "py_getitem (JStr s) k = Inl (TypeError ''string indices must be integers, not str'')"
| "py_getitem x k = Inl (TypeError ''object is not subscriptable'')"

text \<open>\<open>x[0]\<close>: a dict from \<open>json.loads\<close> has no key \<open>0\<close>.\<close>

fun py_index0 :: "json \<Rightarrow> py_exn + json" where
  "py_index0 (JArr []) = Inl (IndexError ''list index out of range'')"
| "py_index0 (JArr (x # xs)) = Inr x"
| "py_index0 (JStr []) = Inl (IndexError ''string index out of range'')"
| "py_index0 (JStr (c # cs)) = Inr (JStr [c])"
| "py_index0 (JObj kv) = Inl (KeyError ''0'')"
| "py_index0 x = Inl (TypeError ''object is not subscriptable'')"

text \<open>\<open>d.get(key, default)\<close> on a dict, as an association list.\<close>

definition dict_get :: "(string \<times> json) list \<Rightarrow> string \<Rightarrow> json \<Rightarrow> json" where
  "dict_get kv k dflt = (case map_of kv k of None \<Rightarrow> dflt | Some v \<Rightarrow> v)"

text \<open>\<open>x.get(key, default)\<close>: only a dict has the method.\<close>

fun py_get :: "json \<Rightarrow> string \<Rightarrow> json \<Rightarrow> py_exn + json" where
  "py_get (JObj kv) k dflt = Inr (dict_get kv k dflt)"
| "py_get x k dflt = Inl (AttributeError ''object has no attribute get'')"

text \<open>\<open>s.lower()\<close> on the code points below 256.\<close>

definition lower_char :: "char \<Rightarrow> char" where
  "lower_char c =
     (let n = (of_char c :: nat)
      in if (65 \<le> n \<and> n \<le> 90) \<or> (192 \<le> n \<and> n \<le> 222 \<and> n \<noteq> 215)
         then char_of (n + 32) else c)"

definition lower :: "string \<Rightarrow> string" where
  "lower s = map lower_char s"

text \<open>\<open>str(n)\<close> for an integer: its decimal digits, with a minus sign when negative.\<close>

fun show_nat :: "nat \<Rightarrow> string" where
  "show_nat n =
     (if n < 10 then [char_of (48 + n)]
      else show_nat (n div 10) @ [char_of (48 + n mod 10)])"

declare show_nat.simps [simp del]

definition show_int :: "int \<Rightarrow> string" where
  "show_int i = (if i < 0 then ''-'' @ show_nat (nat (- i)) else show_nat (nat i))"

section \<open>Dates and times: \<open>datetime.strptime\<close>\<close>

text \<open>
  \<open>datetime.strptime\<close> compiles the format into a regular expression, matches it at
  the start of the text with \<open>re.match\<close>, raises \<open>ValueError\<close> when there is no
  match or when text is left over after the match, and raises \<open>ValueError\<close> again when
  the numbers found are not a calendar date.  The directives used by this service are
  \<^item> \<open>%Y\<close>: \<open>\d\d\d\d\<close>
  \<^item> \<open>%m\<close>: \<open>1[0-2]|0[1-9]|[1-9]\<close>
  \<^item> \<open>%d\<close>: \<open>3[0-1]|[1-2]\d|0[1-9]|[1-9]| [1-9]\<close>
  \<^item> \<open>%H\<close>: \<open>2[0-3]|[0-1]\d|\d\<close>
  \<^item> \<open>%M\<close>: \<open>[0-5]\d|\d\<close>

  A regular expression is modelled by the list of its matches at the start of the text,
  in the order in which backtracking tries them; each match is the number read and the
  rest of the text.  \<open>re.match\<close> returns the first one.  Digits are the ASCII digits.
\<close>

type_synonym date = "nat \<times> nat \<times> nat"

definition char_between :: "char \<Rightarrow> char \<Rightarrow> char \<Rightarrow> bool" where
  "char_between lo hi c =
     ((of_char lo :: nat) \<le> of_char c \<and> (of_char c :: nat) \<le> of_char hi)"

definition is_digit :: "char \<Rightarrow> bool" where
  "is_digit c = char_between (CHR ''0'') (CHR ''9'') c"

definition digit_val :: "char \<Rightarrow> nat" where
  "digit_val c = of_char c - 48"

fun one_char :: "(char \<Rightarrow> bool) \<Rightarrow> string \<Rightarrow> (nat \<times> string) list" where
  "one_char p (a # rest) = (if p a then [(digit_val a, rest)] else [])"
| "one_char p [] = []"

fun two_chars :: "(char \<Rightarrow> bool) \<Rightarrow> (char \<Rightarrow> bool) \<Rightarrow> string \<Rightarrow> (nat \<times> string) list" where
  "two_chars p q (a # b # rest) =
     (if p a \<and> q b then [(10 * digit_val a + digit_val b, rest)] else [])"
| "two_chars p q s = []"

fun literal :: "char \<Rightarrow> string \<Rightarrow> string list" where
  "literal c (a # rest) = (if a = c then [rest] else [])"
| "literal c [] = []"

fun regex_Y :: "string \<Rightarrow> (nat \<times> string) list" where
  "regex_Y (a # b # c # d # rest) =
     (if is_digit a \<and> is_digit b \<and> is_digit c \<and> is_digit d
      then [(1000 * digit_val a + 100 * digit_val b + 10 * digit_val c + digit_val d, rest)]
      else [])"
| "regex_Y s = []"

definition regex_m :: "string \<Rightarrow> (nat \<times> string) list" where
  "regex_m s =
     two_chars (\<lambda>c. c = CHR ''1'') (char_between (CHR ''0'') (CHR ''2'')) s @
     two_chars (\<lambda>c. c = CHR ''0'') (char_between (CHR ''1'') (CHR ''9'')) s @
     one_char (char_between (CHR ''1'') (CHR ''9'')) s"

text \<open>The last alternative of \<open>%d\<close> is a space followed by a digit from 1 to 9.\<close>

fun space_digit :: "string \<Rightarrow> (nat \<times> string) list" where
  "space_digit (a # b # rest) =
     (if a = CHR '' '' \<and> char_between (CHR ''1'') (CHR ''9'') b then [(digit_val b, rest)] else [])"
| "space_digit s = []"

definition regex_d :: "string \<Rightarrow> (nat \<times> string) list" where
  "regex_d s =
     two_chars (\<lambda>c. c = CHR ''3'') (char_between (CHR ''0'') (CHR ''1'')) s @
     two_chars (char_between (CHR ''1'') (CHR ''2'')) is_digit s @
     two_chars (\<lambda>c. c = CHR ''0'') (char_between (CHR ''1'') (CHR ''9'')) s @
     one_char (char_between (CHR ''1'') (CHR ''9'')) s @
     space_digit s"

definition regex_H :: "string \<Rightarrow> (nat \<times> string) list" where
  "regex_H s =
     two_chars (\<lambda>c. c = CHR ''2'') (char_between (CHR ''0'') (CHR ''3'')) s @
     two_chars (char_between (CHR ''0'') (CHR ''1'')) is_digit s @
     one_char is_digit s"

definition regex_M :: "string \<Rightarrow> (nat \<times> string) list" where
  "regex_M s =
     two_chars (char_between (CHR ''0'') (CHR ''5'')) is_digit s @
     one_char is_digit s"

text \<open>The format \<open>%Y-%m-%d\<close>: every way to match it at the start of the text.\<close>

definition regex_Y_m_d :: "string \<Rightarrow> (date \<times> string) list" where
  "regex_Y_m_d s =
     [((y, m, d), r5).
        (y, r1) \<leftarrow> regex_Y s, r2 \<leftarrow> literal (CHR ''-'') r1,
        (m, r3) \<leftarrow> regex_m r2, r4 \<leftarrow> literal (CHR ''-'') r3,
        (d, r5) \<leftarrow> regex_d r4]"

text \<open>The format \<open>%H:%M\<close>.\<close>

definition regex_H_M :: "string \<Rightarrow> ((nat \<times> nat) \<times> string) list" where
  "regex_H_M s =
     [((h, mi), r3).
        (h, r1) \<leftarrow> regex_H s, r2 \<leftarrow> literal (CHR '':'') r1, (mi, r3) \<leftarrow> regex_M r2]"

definition is_leap :: "nat \<Rightarrow> bool" where
  "is_leap y = (y mod 4 = 0 \<and> (y mod 100 \<noteq> 0 \<or> y mod 400 = 0))"

definition days_in_month :: "nat \<Rightarrow> nat \<Rightarrow> nat" where
  "days_in_month y m =
     (if m = 2 then (if is_leap y then 29 else 28)
      else if m = 4 \<or> m = 6 \<or> m = 9 \<or> m = 11 then 30
      else 31)"

text \<open>\<open>datetime.date(y, m, d)\<close> exists: years run from 1 to 9999.\<close>

definition valid_date :: "date \<Rightarrow> bool" where
  "valid_date dt =
     (case dt of (y, m, d) \<Rightarrow>
        1 \<le> y \<and> y \<le> 9999 \<and> 1 \<le> m \<and> m \<le> 12 \<and> 1 \<le> d \<and> d \<le> days_in_month y m)"

text \<open>\<open>datetime.strptime(v, "%Y-%m-%d").date()\<close>.\<close>

definition strptime_Y_m_d :: "string \<Rightarrow> py_exn + date" where
  "strptime_Y_m_d v =
     (case regex_Y_m_d v of
        [] \<Rightarrow> Inl (ValueError ''time data does not match format'')
      | (dt, rest) # other \<Rightarrow>
          if rest \<noteq> [] then Inl (ValueError ''unconverted data remains'')
          else if valid_date dt then Inr dt
          else Inl (ValueError ''day is out of range for month''))"

text \<open>\<open>datetime.strptime(v, "%H:%M")\<close>.\<close>

definition strptime_H_M :: "string \<Rightarrow> py_exn + (nat \<times> nat)" where
  "strptime_H_M v =
     (case regex_H_M v of
        [] \<Rightarrow> Inl (ValueError ''time data does not match format'')
      | (t, rest) # other \<Rightarrow>
          if rest \<noteq> [] then Inl (ValueError ''unconverted data remains'') else Inr t)"

text \<open>The order of \<open>datetime.date\<close>: \<open>date_obj < today\<close>.\<close>

definition date_less :: "date \<Rightarrow> date \<Rightarrow> bool" where
  "date_less a b =
     (case a of (y1, m1, d1) \<Rightarrow> case b of (y2, m2, d2) \<Rightarrow>
        y1 < y2 \<or> (y1 = y2 \<and> (m1 < m2 \<or> (m1 = m2 \<and> d1 < d2))))"

section \<open>The libraries and the clock\<close>

text \<open>
  What the service gets from outside its own code is a parameter of the model: the JSON
  decoder, the clock, the e-mail address validator behind \<open>EmailStr\<close>, the time zone
  database of \<open>pytz\<close>, the text pydantic renders for a \<open>ValidationError\<close>, and the
  Google Calendar client.  A field error of pydantic is its location, its message and
  the input it refused.
\<close>

type_synonym field_error = "string \<times> string \<times> json"

record env =
  utf8_decodable :: "string \<Rightarrow> bool"
  json_loads :: "string \<Rightarrow> py_exn + json"
  current_date :: date
  utcnow_isoformat :: string
  email_validator :: "string \<Rightarrow> string option"
  pytz_known :: "string \<Rightarrow> bool"
  render_validation_error :: "field_error list \<Rightarrow> string"
  build_service :: "(string \<times> json) list \<Rightarrow> py_exn option"
  zoned_interval :: "string \<Rightarrow> string \<Rightarrow> int \<Rightarrow> py_exn + (string \<times> string)"
  events_insert :: "json \<Rightarrow> py_exn + json"

text \<open>
  \<^item> \<open>utf8_decodable raw\<close>: \<open>raw.decode()\<close> does not raise.
  \<^item> \<open>json_loads\<close>: \<open>json.loads\<close>.
  \<^item> \<open>current_date\<close>: \<open>datetime.now().date()\<close>; \<open>utcnow_isoformat\<close>:
    \<open>datetime.utcnow().isoformat()\<close>.
  \<^item> \<open>email_validator s\<close>: the normalised address \<open>EmailStr\<close> keeps, or \<open>None\<close>
    when it rejects \<open>s\<close>.
  \<^item> \<open>pytz_known z\<close>: \<open>pytz.timezone(z)\<close> does not raise.
  \<^item> \<open>build_service tok\<close>: the exception raised by \<open>Credentials(**tok)\<close> or
    \<open>build("calendar", "v3", ...)\<close>, if any.
  \<^item> \<open>zoned_interval tz dt_str minutes\<close>: lines 80 to 84 of main.py (resolve the zone,
    parse \<open>dt_str\<close>, localise it, add the duration) and the two \<open>isoformat()\<close> texts
    of the start and of the end.
  \<^item> \<open>events_insert body\<close>: \<open>service.events().insert(...).execute()\<close>.
\<close>

section \<open>\<open>AppointmentDetails\<close> (app/models.py)\<close>

subsection \<open>The field validators\<close>

text \<open>
  \<open>validate_date\<close>, with the current date \<open>datetime.now().date()\<close> as a parameter.
  The body of the \<open>try\<close> is the inner computation; the \<open>except ValueError\<close> clause
  replaces every \<open>ValueError\<close> raised in that body, the one of line 41 included.
\<close>

definition validate_date :: "date \<Rightarrow> string \<Rightarrow> py_exn + string" where
  "validate_date today v =
     (case bind_exn (strptime_Y_m_d v)
             (\<lambda>date_obj. if date_less date_obj today
                          then Inl (ValueError ''Date must be in the future'')
                          else Inr v)
      of Inl e \<Rightarrow>
           if is_ValueError e then Inl (ValueError ''Date must be in YYYY-MM-DD format'')
           else Inl e
       | Inr r \<Rightarrow> Inr r)"

definition validate_time :: "string \<Rightarrow> py_exn + string" where
  "validate_time v =
     (case bind_exn (strptime_H_M v) (\<lambda>t. Inr v)
      of Inl e \<Rightarrow>
           if is_ValueError e then Inl (ValueError ''Time must be in HH:MM format (24-hour)'')
           else Inl e
       | Inr r \<Rightarrow> Inr r)"

text \<open>
  \<open>validate_phone\<close>: \<open>re.match\<close> of \<open>^[\d\s\-\+\(\)]{10,20}$\<close>.  Below 256 the
  class \<open>\s\<close> holds the code points 9 to 13, 28 to 32, 133 and 160, and \<open>\d\<close> the
  ASCII digits.  \<open>$\<close> matches at the end of the text and before a last newline, so
  the expression matches a text of 10 to 20 characters of the class, and a text of 21 of
  them that ends with a newline.
\<close>

definition is_space :: "char \<Rightarrow> bool" where
  "is_space c =
     (let n = (of_char c :: nat)
      in (9 \<le> n \<and> n \<le> 13) \<or> (28 \<le> n \<and> n \<le> 32) \<or> n = 133 \<or> n = 160)"

definition phone_char :: "char \<Rightarrow> bool" where
  "phone_char c =
     (is_digit c \<or> is_space c \<or> c = CHR ''-'' \<or> c = CHR ''+'' \<or> c = CHR ''('' \<or> c = CHR '')'')"

definition phone_regex_match :: "string \<Rightarrow> bool" where
  "phone_regex_match s =
     (list_all phone_char s \<and>
      ((10 \<le> length s \<and> length s \<le> 20) \<or> (length s = 21 \<and> last s = CHR 0x0A)))"

definition validate_phone :: "string \<Rightarrow> py_exn + string" where
  "validate_phone v =
     (if phone_regex_match v then Inr v else Inl (ValueError ''Invalid phone format''))"

definition validate_timezone :: "env \<Rightarrow> string \<Rightarrow> py_exn + string" where
  "validate_timezone env v =
     (if pytz_known env v then Inr v else Inl (ValueError (''Invalid timezone: '' @ v)))"

subsection \<open>The model\<close>

text \<open>
  A validated value.  \<open>phone\<close> and \<open>duration_minutes\<close> are declared \<open>str | int\<close>,
  but no \<open>int\<close> phone and no \<open>str\<close> duration survives validation (see
  \<open>phone_field\<close> and \<open>duration_minutes_field\<close>), so the fields of a constructed value
  are a string and an integer.
\<close>

record AppointmentDetails =
  appt_name :: string
  appt_phone :: string
  appt_email :: string
  appt_date :: string
  appt_time :: string
  appt_purpose :: "string option"
  appt_timezone :: string
  appt_duration_minutes :: int

text \<open>
  The keyword arguments of \<open>AppointmentDetails(...)\<close>.  The three fields with a
  default may be left out (\<open>None\<close> here).
\<close>

record kwargs =
  kw_name :: json
  kw_phone :: json
  kw_email :: json
  kw_date :: json
  kw_time :: json
  kw_purpose :: "json option"
  kw_timezone :: "json option"
  kw_duration_minutes :: "json option"

text \<open>
  The outcome of validating one field: the value, the errors pydantic collects for the
  \<open>ValidationError\<close> it raises once all fields are done, or an exception that is not
  a validation error and leaves the constructor at once.
\<close>

datatype 'a field_result = Valid 'a | Invalid "field_error list" | Crash py_exn

fun crash_of :: "'a field_result \<Rightarrow> py_exn option" where
  "crash_of (Crash e) = Some e"
| "crash_of r = None"

fun errors_of :: "'a field_result \<Rightarrow> field_error list" where
  "errors_of (Invalid es) = es"
| "errors_of r = []"

text \<open>
  A \<open>field_validator\<close> of the class: a \<open>ValueError\<close> it raises becomes a field error
  (pydantic prefixes the message with "Value error, ").
\<close>

definition run_validator :: "string \<Rightarrow> json \<Rightarrow> py_exn + 'a \<Rightarrow> 'a field_result" where
  "run_validator loc input r =
     (case r of
        Inr v \<Rightarrow> Valid v
      | Inl e \<Rightarrow> if is_ValueError e then Invalid [(loc, ''Value error, '' @ exn_str e, input)]
                 else Crash e)"

text \<open>A field of type \<open>str\<close>: no other type is converted to a string.\<close>

definition str_field :: "string \<Rightarrow> json \<Rightarrow> string field_result" where
  "str_field loc v =
     (case v of JStr s \<Rightarrow> Valid s | _ \<Rightarrow> Invalid [(loc, ''Input should be a valid string'', v)])"

text \<open>
  A field of type \<open>str | int\<close> (a smart-mode union): a string stays a string and an
  integer an integer; a \<open>bool\<close>, and a \<open>float\<close> without a fractional part that
  lies strictly between \<open>-2^63\<close> and \<open>2^63\<close>, are converted to an integer; everything
  else fails both members.
\<close>

definition float_as_int :: "pyfloat \<Rightarrow> int option" where
  "float_as_int f =
     (case f of
        Finite r \<Rightarrow>
          (if of_int \<lfloor>r\<rfloor> = r \<and> - (2 ^ 63) < r \<and> r < 2 ^ 63 then Some \<lfloor>r\<rfloor> else None)
      | _ \<Rightarrow> None)"

definition str_or_int_field :: "string \<Rightarrow> json \<Rightarrow> (string + int) field_result" where
  "str_or_int_field loc v =
     (let both = Invalid [(loc @ ''.str'', ''Input should be a valid string'', v),
                          (loc @ ''.int'', ''Input should be a valid integer'', v)]
      in case v of
           JStr s \<Rightarrow> Valid (Inl s)
         | JInt i \<Rightarrow> Valid (Inr i)
         | JBool b \<Rightarrow> Valid (Inr (if b then 1 else 0))
         | JFloat f \<Rightarrow> (case float_as_int f of Some i \<Rightarrow> Valid (Inr i) | None \<Rightarrow> both)
         | _ \<Rightarrow> both)"

text \<open>\<open>name: str = Field(..., min_length=2, max_length=100)\<close>.\<close>

definition name_field :: "json \<Rightarrow> string field_result" where
  "name_field v =
     (case str_field ''name'' v of
        Valid s \<Rightarrow>
          if length s < 2 then Invalid [(''name'', ''String should have at least 2 characters'', v)]
          else if 100 < length s
          then Invalid [(''name'', ''String should have at most 100 characters'', v)]
          else Valid s
      | r \<Rightarrow> r)"

text \<open>
  \<open>phone: str | int = Field(..., min_length=5, max_length=20)\<close> with \<open>validate_phone\<close>.
  The length bounds of a union are checked after the union, with \<open>len\<close>: on an
  integer that is a \<open>TypeError\<close>, which is not a validation error.
\<close>

definition phone_field :: "json \<Rightarrow> string field_result" where
  "phone_field v =
     (case str_or_int_field ''phone'' v of
        Valid (Inl s) \<Rightarrow>
          if length s < 5
          then Invalid [(''phone'',
                         ''Value should have at least 5 items after validation, not '' @
                           show_nat (length s), v)]
          else if 20 < length s
          then Invalid [(''phone'',
                         ''Value should have at most 20 items after validation, not '' @
                           show_nat (length s), v)]
          else run_validator ''phone'' v (validate_phone s)
      | Valid (Inr i) \<Rightarrow>
          Crash (TypeError (''Unable to apply constraint 'min_length' to supplied value '' @
                            show_int i))
      | Invalid es \<Rightarrow> Invalid es
      | Crash e \<Rightarrow> Crash e)"

text \<open>\<open>email: EmailStr\<close>.\<close>

definition email_field :: "env \<Rightarrow> json \<Rightarrow> string field_result" where
  "email_field env v =
     (case str_field ''email'' v of
        Valid s \<Rightarrow>
          (case email_validator env s of
             Some normalized \<Rightarrow> Valid normalized
           | None \<Rightarrow> Invalid [(''email'', ''value is not a valid email address'', v)])
      | r \<Rightarrow> r)"

definition date_field :: "env \<Rightarrow> json \<Rightarrow> string field_result" where
  "date_field env v =
     (case str_field ''date'' v of
        Valid s \<Rightarrow> run_validator ''date'' v (validate_date (current_date env) s)
      | r \<Rightarrow> r)"

definition time_field :: "json \<Rightarrow> string field_result" where
  "time_field v =
     (case str_field ''time'' v of
        Valid s \<Rightarrow> run_validator ''time'' v (validate_time s)
      | r \<Rightarrow> r)"

text \<open>
  \<open>purpose: Optional[str] = Field(default="Discovery Session", max_length=200)\<close>.
  A default is not validated.
\<close>

definition purpose_field :: "json option \<Rightarrow> string option field_result" where
  "purpose_field given =
     (case given of
        None \<Rightarrow> Valid (Some ''Discovery Session'')
      | Some JNull \<Rightarrow> Valid None
      | Some (JStr s) \<Rightarrow>
          if 200 < length s
          then Invalid [(''purpose'', ''String should have at most 200 characters'', JStr s)]
          else Valid (Some s)
      | Some v \<Rightarrow> Invalid [(''purpose'', ''Input should be a valid string'', v)])"

text \<open>\<open>timezone: str = Field(default=DEFAULT_TIMEZONE)\<close> with \<open>validate_timezone\<close>.\<close>

definition timezone_field :: "env \<Rightarrow> config \<Rightarrow> json option \<Rightarrow> string field_result" where
  "timezone_field env cfg given =
     (case given of
        None \<Rightarrow> Valid (DEFAULT_TIMEZONE cfg)
      | Some v \<Rightarrow>
          (case str_field ''timezone'' v of
             Valid s \<Rightarrow> run_validator ''timezone'' v (validate_timezone env s)
           | r \<Rightarrow> r))"

text \<open>
  \<open>duration_minutes: str | int = Field(default=30, ge=15, le=480)\<close>.  The bounds of a
  union are checked after the union, with \<open>>=\<close> and \<open><=\<close>: between a string and an
  integer that is a \<open>TypeError\<close>.
\<close>

definition duration_minutes_field :: "json option \<Rightarrow> int field_result" where
  "duration_minutes_field given =
     (case given of
        None \<Rightarrow> Valid 30
      | Some v \<Rightarrow>
          (case str_or_int_field ''duration_minutes'' v of
             Valid (Inr i) \<Rightarrow>
               if i < 15
               then Invalid [(''duration_minutes'', ''Input should be greater than or equal to 15'', v)]
               else if 480 < i
               then Invalid [(''duration_minutes'', ''Input should be less than or equal to 480'', v)]
               else Valid i
           | Valid (Inl s) \<Rightarrow>
               Crash (TypeError (''Unable to apply constraint 'ge' to supplied value '' @ s))
           | Invalid es \<Rightarrow> Invalid es
           | Crash e \<Rightarrow> Crash e))"

text \<open>The first exception, in the order of the fields, that is not a validation error.\<close>

fun first_crash :: "py_exn option list \<Rightarrow> py_exn option" where
  "first_crash [] = None"
| "first_crash (Some e # rest) = Some e"
| "first_crash (None # rest) = first_crash rest"

text \<open>
  \<open>AppointmentDetails(**kwargs)\<close>: the fields are validated in the order of their
  declaration; the errors of all fields are raised together as one \<open>ValidationError\<close>.
\<close>

definition AppointmentDetails_init :: "env \<Rightarrow> config \<Rightarrow> kwargs \<Rightarrow> py_exn + AppointmentDetails" where
  "AppointmentDetails_init env cfg kw =
     (let r_name = name_field (kw_name kw);
          r_phone = phone_field (kw_phone kw);
          r_email = email_field env (kw_email kw);
          r_date = date_field env (kw_date kw);
          r_time = time_field (kw_time kw);
          r_purpose = purpose_field (kw_purpose kw);
          r_timezone = timezone_field env cfg (kw_timezone kw);
          r_duration = duration_minutes_field (kw_duration_minutes kw)
      in case first_crash [crash_of r_name, crash_of r_phone, crash_of r_email, crash_of r_date,
                           crash_of r_time, crash_of r_purpose, crash_of r_timezone,
                           crash_of r_duration] of
           Some e \<Rightarrow> Inl e
         | None \<Rightarrow>
             (case (r_name, r_phone, r_email, r_date, r_time, r_purpose, r_timezone, r_duration) of
                (Valid n, Valid p, Valid e, Valid d, Valid t, Valid pu, Valid tz, Valid du) \<Rightarrow>
                  Inr \<lparr>appt_name = n, appt_phone = p, appt_email = e, appt_date = d,
                       appt_time = t, appt_purpose = pu, appt_timezone = tz,
                       appt_duration_minutes = du\<rparr>
              | _ \<Rightarrow>
                  Inl (ValidationError (render_validation_error env
                         (errors_of r_name @ errors_of r_phone @ errors_of r_email @
                          errors_of r_date @ errors_of r_time @ errors_of r_purpose @
                          errors_of r_timezone @ errors_of r_duration)))))"

section \<open>The HTTP service (app/main.py)\<close>

subsection \<open>Process-wide state\<close>

text \<open>
  \<open>token_store\<close> and \<open>booked_slots\<close> are the two module-level stores.  A booked slot
  is the dict appended on line 145.  \<open>calendar_requests\<close> is not a variable of the
  program: it records the event bodies handed to \<open>events().insert(...).execute()\<close>,
  so that "no event creation is attempted" can be stated.
\<close>

record state =
  token_store :: "string \<rightharpoonup> (string \<times> json) list"
  booked_slots :: "json list"
  calendar_requests :: "json list"

subsection \<open>Calendar helper\<close>

definition get_calendar_service :: "env \<Rightarrow> state \<Rightarrow> py_exn + unit" where
  "get_calendar_service env st =
     (case token_store st ''default'' of
        None \<Rightarrow> Inl (HTTPException 401 ''Google Calendar not connected. Please authenticate first.'')
      | Some tok \<Rightarrow> (case build_service env tok of Some e \<Rightarrow> Inl e | None \<Rightarrow> Inr ()))"

definition json_of_option :: "string option \<Rightarrow> json" where
  "json_of_option v = (case v of None \<Rightarrow> JNull | Some s \<Rightarrow> JStr s)"

text \<open>An optional string inside an f-string: \<open>None\<close> prints as "None".\<close>

definition format_option :: "string option \<Rightarrow> string" where
  "format_option v = (case v of None \<Rightarrow> ''None'' | Some s \<Rightarrow> s)"

definition em_dash :: string where
  "em_dash = [CHR 0xE2, CHR 0x80, CHR 0x94]"

definition middle_dot :: string where
  "middle_dot = [CHR 0xC2, CHR 0xB7]"

definition event_body :: "config \<Rightarrow> AppointmentDetails \<Rightarrow> string \<Rightarrow> string \<Rightarrow> json" where
  "event_body cfg appt start_iso end_iso =
     JObj
      [(''summary'', JStr (''Vikara Discovery Session '' @ em_dash @ '' '' @ appt_name appt)),
       (''description'', JStr (
           ''Free Discovery Session with Vikara'' @ newline @
           ''vikara.ai | ask@vikara.ai | +1 510 309 6846'' @ newline @ newline @
           ''Client:   '' @ appt_name appt @ newline @
           ''Phone:    '' @ appt_phone appt @ newline @
           ''Email:    '' @ appt_email appt @ newline @
           ''Session:  '' @ format_option (appt_purpose appt) @ newline @ newline @
           ''Offices: SF Bay Area '' @ middle_dot @ '' Bengaluru '' @ middle_dot @ '' Melbourne'')),
       (''start'', JObj [(''dateTime'', JStr start_iso), (''timeZone'', JStr (appt_timezone appt))]),
       (''end'', JObj [(''dateTime'', JStr end_iso), (''timeZone'', JStr (appt_timezone appt))]),
       (''organizer'', JObj [(''email'', json_of_option (YOUR_EMAIL cfg)),
                            (''displayName'', JStr ''Vikara Team''),
                            (''self'', JBool True)]),
       (''attendees'', JArr
          [JObj [(''email'', json_of_option (YOUR_EMAIL cfg)),
                 (''displayName'', JStr ''Vikara Team''),
                 (''organizer'', JBool True),
                 (''responseStatus'', JStr ''accepted'')],
           JObj [(''email'', JStr (appt_email appt)),
                 (''displayName'', JStr (appt_name appt)),
                 (''responseStatus'', JStr ''needsAction'')]]),
       (''reminders'', JObj
          [(''useDefault'', JBool False),
           (''overrides'', JArr
              [JObj [(''method'', JStr ''email''), (''minutes'', JInt (24 * 60))],
               JObj [(''method'', JStr ''email''), (''minutes'', JInt 60)],
               JObj [(''method'', JStr ''popup''), (''minutes'', JInt 30)]])]),
       (''guestsCanSeeOtherGuests'', JBool False)]"

text \<open>The dict appended to \<open>booked_slots\<close> (lines 145 to 155).\<close>

definition booked_slot :: "env \<Rightarrow> AppointmentDetails \<Rightarrow> json \<Rightarrow> json \<Rightarrow> json" where
  "booked_slot env appt event_id event_link =
     JObj [(''event_id'', event_id),
           (''name'', JStr (appt_name appt)),
           (''email'', JStr (appt_email appt)),
           (''phone'', JStr (appt_phone appt)),
           (''date'', JStr (appt_date appt)),
           (''time'', JStr (appt_time appt)),
           (''purpose'', json_of_option (appt_purpose appt)),
           (''event_link'', event_link),
           (''created_at'', JStr (utcnow_isoformat env))]"

text \<open>The body of the \<open>try\<close> of \<open>create_google_calendar_event\<close> (lines 79 to 163).\<close>

definition create_event_try ::
  "env \<Rightarrow> config \<Rightarrow> state \<Rightarrow> AppointmentDetails \<Rightarrow> (py_exn + (string \<times> json) list) \<times> state" where
  "create_event_try env cfg st appt =
     (case get_calendar_service env st of
        Inl e \<Rightarrow> (Inl e, st)
      | Inr service \<Rightarrow>
          (case zoned_interval env (appt_timezone appt)
                  (appt_date appt @ ''T'' @ appt_time appt @ '':00'') (appt_duration_minutes appt) of
             Inl e \<Rightarrow> (Inl e, st)
           | Inr (start_iso, end_iso) \<Rightarrow>
               (let body = event_body cfg appt start_iso end_iso;
                    st1 = st\<lparr>calendar_requests := calendar_requests st @ [body]\<rparr>
                in case events_insert env body of
                     Inl e \<Rightarrow> (Inl e, st1)
                   | Inr created \<Rightarrow>
                       (case py_get created ''id'' JNull of
                          Inl e \<Rightarrow> (Inl e, st1)
                        | Inr event_id \<Rightarrow>
                            (case py_get created ''htmlLink'' JNull of
                               Inl e \<Rightarrow> (Inl e, st1)
                             | Inr event_link \<Rightarrow>
                                 (Inr [(''success'', JBool True),
                                       (''event_id'', event_id),
                                       (''event_link'', event_link),
                                       (''start'', JStr start_iso),
                                       (''end'', JStr end_iso)],
                                  st1\<lparr>booked_slots :=
                                         booked_slots st1 @
                                           [booked_slot env appt event_id event_link]\<rparr>))))))"

text \<open>
  \<open>create_google_calendar_event\<close>: the \<open>try\<close> with its \<open>except HttpError\<close> clause
  (lines 165 to 172).  Every other exception leaves the function as it is.
\<close>

definition create_google_calendar_event ::
  "env \<Rightarrow> config \<Rightarrow> state \<Rightarrow> AppointmentDetails \<Rightarrow> (py_exn + (string \<times> json) list) \<times> state" where
  "create_google_calendar_event env cfg st appt =
     (case create_event_try env cfg st appt of
        (Inl (HttpError text), st') \<Rightarrow>
          (if contains text ''403''
           then Inr [(''success'', JBool False),
                     (''error'', JStr ''Calendar permission denied. Please re-authenticate.'')]
           else if contains text ''409''
           then Inr [(''success'', JBool False), (''error'', JStr ''Time slot conflict detected.'')]
           else Inl (HTTPException 500 (''Calendar error: '' @ text)),
           st')
      | r \<Rightarrow> r)"

subsection \<open>The tool endpoint \<open>/vapi/tool/book-appointment\<close>\<close>

text \<open>The envelope of every answer: \<open>vapi_response\<close> and the dicts of the \<open>except\<close> clauses.\<close>

definition vapi_response :: "json \<Rightarrow> json \<Rightarrow> json" where
  "vapi_response tool_call_id message =
     JObj [(''results'', JArr [JObj [(''toolCallId'', tool_call_id), (''result'', message)]])]"

text \<open>
  Lines 352 to 360.  \<open>tool_call_id\<close> starts as \<open>None\<close>; each of the three steps returns
  its new value, or raises.
\<close>

definition id_from_message :: "json \<Rightarrow> py_exn + json" where
  "id_from_message body =
     bind_exn (py_in ''message'' body) (\<lambda>present.
       if present
       then bind_exn (py_getitem body ''message'') (\<lambda>message.
            bind_exn (py_get message ''toolCallList'' (JArr [])) (\<lambda>tool_call_list.
              if truthy tool_call_list
              then bind_exn (py_index0 tool_call_list) (\<lambda>first. py_get first ''id'' JNull)
              else Inr JNull))
       else Inr JNull)"

definition id_from_toolCall :: "json \<Rightarrow> json \<Rightarrow> py_exn + json" where
  "id_from_toolCall body tool_call_id =
     (if truthy tool_call_id then Inr tool_call_id
      else bind_exn (py_in ''toolCall'' body) (\<lambda>present.
             if present
             then bind_exn (py_getitem body ''toolCall'') (\<lambda>tool_call. py_get tool_call ''id'' JNull)
             else Inr tool_call_id))"

definition id_from_toolCallList :: "json \<Rightarrow> json \<Rightarrow> py_exn + json" where
  "id_from_toolCallList body tool_call_id =
     (if truthy tool_call_id then Inr tool_call_id
      else bind_exn (py_in ''toolCallList'' body) (\<lambda>present.
             if present
             then bind_exn (py_getitem body ''toolCallList'') (\<lambda>tool_call_list.
                  bind_exn (py_index0 tool_call_list) (\<lambda>first. py_get first ''id'' JNull))
             else Inr tool_call_id))"

text \<open>
  The value of \<open>tool_call_id\<close> when the three steps are over, or when one of them
  raised (then with the exception).
\<close>

definition extract_tool_call_id :: "json \<Rightarrow> json \<times> py_exn option" where
  "extract_tool_call_id body =
     (case id_from_message body of
        Inl e \<Rightarrow> (JNull, Some e)
      | Inr t1 \<Rightarrow>
          (case id_from_toolCall body t1 of
             Inl e \<Rightarrow> (t1, Some e)
           | Inr t2 \<Rightarrow>
               (case id_from_toolCallList body t2 of
                  Inl e \<Rightarrow> (t2, Some e)
                | Inr t3 \<Rightarrow> (t3, None))))"

text \<open>Lines 381 to 393: \<open>args\<close> starts as \<open>None\<close> and goes through five steps.\<close>

definition function_arguments :: "json \<Rightarrow> py_exn + json" where
  "function_arguments tool_call =
     bind_exn (py_get tool_call ''function'' (JObj [])) (\<lambda>f. py_get f ''arguments'' JNull)"

definition args_from_message :: "json \<Rightarrow> py_exn + json" where
  "args_from_message body =
     bind_exn (py_in ''message'' body) (\<lambda>present.
       if present
       then bind_exn (py_getitem body ''message'') (\<lambda>message.
            bind_exn (py_get message ''toolCallList'' (JArr [])) (\<lambda>tool_call_list.
              if truthy tool_call_list
              then bind_exn (py_index0 tool_call_list) function_arguments
              else Inr JNull))
       else Inr JNull)"

definition args_from_toolCall :: "json \<Rightarrow> json \<Rightarrow> py_exn + json" where
  "args_from_toolCall body args =
     (if truthy args then Inr args
      else bind_exn (py_in ''toolCall'' body) (\<lambda>present.
             if present then bind_exn (py_getitem body ''toolCall'') function_arguments
             else Inr args))"

definition args_from_toolCallList :: "json \<Rightarrow> json \<Rightarrow> py_exn + json" where
  "args_from_toolCallList body args =
     (if truthy args then Inr args
      else bind_exn (py_in ''toolCallList'' body) (\<lambda>present.
             if present
             then bind_exn (py_getitem body ''toolCallList'') (\<lambda>tool_call_list.
                  bind_exn (py_index0 tool_call_list) function_arguments)
             else Inr args))"

definition args_from_function :: "json \<Rightarrow> json \<Rightarrow> py_exn + json" where
  "args_from_function body args =
     (if truthy args then Inr args
      else bind_exn (py_in ''function'' body) (\<lambda>present.
             if present
             then bind_exn (py_getitem body ''function'') (\<lambda>f. py_get f ''arguments'' JNull)
             else Inr args))"

definition args_from_body :: "json \<Rightarrow> json \<Rightarrow> py_exn + json" where
  "args_from_body body args =
     (if truthy args then Inr args
      else bind_exn (py_in ''name'' body) (\<lambda>has_name.
             if has_name
             then bind_exn (py_in ''email'' body) (\<lambda>has_email.
                    if has_email then Inr body else Inr args)
             else Inr args))"

definition extract_args :: "json \<Rightarrow> py_exn + json" where
  "extract_args body =
     bind_exn (args_from_message body) (\<lambda>a1.
     bind_exn (args_from_toolCall body a1) (\<lambda>a2.
     bind_exn (args_from_toolCallList body a2) (\<lambda>a3.
     bind_exn (args_from_function body a3) (\<lambda>a4.
     args_from_body body a4))))"

text \<open>
  Lines 400 to 405: arguments given as a JSON text are decoded; \<open>None\<close> stands for the
  early answer "Invalid data format".
\<close>

definition decode_args :: "env \<Rightarrow> json \<Rightarrow> py_exn + json option" where
  "decode_args env args =
     (case args of
        JStr s \<Rightarrow>
          (case json_loads env s of
             Inl (JSONDecodeError m) \<Rightarrow> Inr None
           | Inl e \<Rightarrow> Inl e
           | Inr v \<Rightarrow> Inr (Some v))
      | _ \<Rightarrow> Inr (Some args))"

definition required_fields :: "string list" where
  "required_fields = [''name'', ''phone'', ''email'', ''date'', ''time'']"

text \<open>Line 410: \<open>[f for f in [...] if not args.get(f)]\<close>.\<close>

definition missing_fields :: "json \<Rightarrow> py_exn + string list" where
  "missing_fields args =
     (case args of
        JObj kv \<Rightarrow> Inr (filter (\<lambda>f. \<not> truthy (dict_get kv f JNull)) required_fields)
      | _ \<Rightarrow> Inl (AttributeError ''object has no attribute get''))"

text \<open>Lines 415 to 424: the keyword arguments of the constructor call.\<close>

definition appointment_kwargs :: "config \<Rightarrow> (string \<times> json) list \<Rightarrow> kwargs" where
  "appointment_kwargs cfg kv =
     \<lparr>kw_name = dict_get kv ''name'' JNull,
      kw_phone = dict_get kv ''phone'' JNull,
      kw_email = dict_get kv ''email'' JNull,
      kw_date = dict_get kv ''date'' JNull,
      kw_time = dict_get kv ''time'' JNull,
      kw_purpose = Some (dict_get kv ''purpose'' (JStr ''Discovery Session'')),
      kw_timezone = Some (dict_get kv ''timezone'' (JStr (DEFAULT_TIMEZONE cfg))),
      kw_duration_minutes = Some (dict_get kv ''duration_minutes'' (JInt 60))\<rparr>"

text \<open>
  Lines 381 to 434, the rest of the \<open>try\<close> once \<open>tool_call_id\<close> is known: the answer
  returned, or the exception raised, and the state.
\<close>

definition handle_tool_call ::
  "env \<Rightarrow> config \<Rightarrow> state \<Rightarrow> json \<Rightarrow> json \<Rightarrow> (py_exn + json) \<times> state" where
  "handle_tool_call env cfg st body tool_call_id =
     (case extract_args body of
        Inl e \<Rightarrow> (Inl e, st)
      | Inr args \<Rightarrow>
          if \<not> truthy args
          then (Inr (vapi_response tool_call_id
                       (JStr ''I had trouble reading the booking details. Could you try again?'')), st)
          else
            (case decode_args env args of
               Inl e \<Rightarrow> (Inl e, st)
             | Inr None \<Rightarrow>
                 (Inr (vapi_response tool_call_id (JStr ''Invalid data format. Please try again.'')), st)
             | Inr (Some args') \<Rightarrow>
                 (case missing_fields args' of
                    Inl e \<Rightarrow> (Inl e, st)
                  | Inr missing \<Rightarrow>
                      if missing \<noteq> []
                      then (Inr (vapi_response tool_call_id
                                   (JStr (''I'm missing '' @ join '', '' missing @
                                          ''. Could you provide those?''))), st)
                      else
                        (case args' of
                           JObj kv \<Rightarrow>
                             (case AppointmentDetails_init env cfg (appointment_kwargs cfg kv) of
                                Inl e \<Rightarrow> (Inl e, st)
                              | Inr appt \<Rightarrow>
                                  (case create_google_calendar_event env cfg st appt of
                                     (Inl e, st') \<Rightarrow> (Inl e, st')
                                   | (Inr result, st') \<Rightarrow>
                                       if \<not> truthy (dict_get result ''success'' JNull)
                                       then (Inr (vapi_response tool_call_id
                                                   (dict_get result ''error''
                                                      (JStr ''Failed to create calendar event. Please try again.''))),
                                             st')
                                       else (Inr (vapi_response tool_call_id
                                                   (JStr (''Your session is booked! A calendar invite has been sent to '' @
                                                          appt_email appt @
                                                          ''. We look forward to speaking with you!''))),
                                             st')))
                         | _ \<Rightarrow> (Inl (AttributeError ''object has no attribute get''), st)))))"

text \<open>
  The three \<open>except\<close> clauses (lines 436 to 460).  Each ends by reading the local
  variable \<open>tool_call_id\<close>, which is unbound (\<open>None\<close> here) when the exception was
  raised before line 352.
\<close>

definition read_local :: "json option \<Rightarrow> py_exn + json" where
  "read_local v =
     (case v of
        None \<Rightarrow> Inl (UnboundLocalError
                  ''cannot access local variable 'tool_call_id' where it is not associated with a value'')
      | Some x \<Rightarrow> Inr x)"

definition validation_message :: "py_exn \<Rightarrow> string" where
  "validation_message e =
     (let error_msg = lower (exn_str e)
      in if contains error_msg ''email''
         then ''Invalid email address. Could you double-check your email?''
         else if contains error_msg ''phone''
         then ''Invalid phone number. Could you provide a valid phone number?''
         else if contains error_msg ''date''
         then ''Invalid date. Please provide a future date.''
         else if contains error_msg ''time''
         then ''Invalid time format. Please provide a time like 2pm or 14:00.''
         else if contains error_msg ''timezone''
         then ''Invalid timezone. Defaulting to Pacific Time.''
         else ''Invalid input: '' @ exn_str e)"

definition except_clauses :: "json option \<Rightarrow> py_exn \<Rightarrow> py_exn + json" where
  "except_clauses tool_call_id e =
     (if is_ValueError e
      then (let msg = validation_message e
            in bind_exn (read_local tool_call_id) (\<lambda>t. Inr (vapi_response t (JStr msg))))
      else case e of
             HTTPException status_code detail \<Rightarrow>
               bind_exn (read_local tool_call_id) (\<lambda>t. Inr (vapi_response t (JStr detail)))
           | _ \<Rightarrow>
               bind_exn (read_local tool_call_id) (\<lambda>t.
                 Inr (vapi_response t (JStr ''Something went wrong on our end. I'll try once more.''))))"

text \<open>
  \<open>book_appointment_tool\<close>: what the handler returns (\<open>Inr\<close>, sent with status 200) or
  the exception that leaves it (\<open>Inl\<close>), and the state after the request.  Line 346
  decodes the raw body for the log before the \<open>try\<close> starts.
\<close>

definition book_appointment_tool ::
  "env \<Rightarrow> config \<Rightarrow> state \<Rightarrow> string \<Rightarrow> (py_exn + json) \<times> state" where
  "book_appointment_tool env cfg st raw_body =
     (if \<not> utf8_decodable env raw_body
      then (Inl (UnicodeDecodeError ''invalid start byte''), st)
      else
        (case json_loads env raw_body of
           Inl e \<Rightarrow> (except_clauses None e, st)
         | Inr body \<Rightarrow>
             (case extract_tool_call_id body of
                (tool_call_id, Some e) \<Rightarrow> (except_clauses (Some tool_call_id) e, st)
              | (tool_call_id, None) \<Rightarrow>
                  (case handle_tool_call env cfg st body tool_call_id of
                     (Inl e, st') \<Rightarrow> (except_clauses (Some tool_call_id) e, st')
                   | (Inr response, st') \<Rightarrow> (Inr response, st')))))"

text \<open>
  A float that is not finite somewhere in a value.  FastAPI renders the returned body
  with \<open>json.dumps(..., allow_nan=False)\<close>, which raises \<open>ValueError\<close> on such a
  value (a tool-call identifier \<open>NaN\<close> echoed in the envelope, for one).
\<close>

fun has_nonfinite :: "json \<Rightarrow> bool" where
  "has_nonfinite (JFloat f) = (case f of Finite r \<Rightarrow> False | _ \<Rightarrow> True)"
| "has_nonfinite (JArr xs) = list_ex has_nonfinite xs"
| "has_nonfinite (JObj kv) = list_ex (\<lambda>p. has_nonfinite (snd p)) kv"
| "has_nonfinite x = False"

text \<open>
  The status FastAPI sends: 200 with the returned body when it can be rendered, the
  status of an \<open>HTTPException\<close>, 500 for every other exception that leaves the handler
  and for a body that cannot be rendered.
\<close>

definition http_status :: "py_exn + json \<Rightarrow> nat" where
  "http_status r =
     (case r of
        Inr body \<Rightarrow> if has_nonfinite body then 500 else 200
      | Inl (HTTPException status_code detail) \<Rightarrow> status_code
      | Inl e \<Rightarrow> 500)"

section \<open>The argument locations, as the specification lists them\<close>

text \<open>
  The specification names five places where the arguments of the call may be, in this
  order: \<open>message.toolCallList[0].function.arguments\<close>,
  \<open>toolCall.function.arguments\<close>, \<open>toolCallList[0].function.arguments\<close>,
  \<open>function.arguments\<close>, and the body itself when it has the keys \<open>name\<close> and
  \<open>email\<close>.  A path is followed through objects and through the first element of a
  list; a place that does not exist holds nothing.  \<open>spec_extract_args\<close> is the value
  of the first place that holds a non-empty value.  These definitions follow the
  specification; \<open>extract_args\<close> above follows the code.
\<close>

fun at_key :: "string \<Rightarrow> json \<Rightarrow> json option" where
  "at_key k (JObj kv) = map_of kv k"
| "at_key k x = None"

fun at_first :: "json \<Rightarrow> json option" where
  "at_first (JArr (x # xs)) = Some x"
| "at_first x = None"

definition at_function_arguments :: "json \<Rightarrow> json option" where
  "at_function_arguments tool_call =
     Option.bind (at_key ''function'' tool_call) (at_key ''arguments'')"

definition spec_locations :: "json \<Rightarrow> json option list" where
  "spec_locations body =
     [Option.bind (at_key ''message'' body) (\<lambda>m.
        Option.bind (at_key ''toolCallList'' m) (\<lambda>l.
          Option.bind (at_first l) at_function_arguments)),
      Option.bind (at_key ''toolCall'' body) at_function_arguments,
      Option.bind (at_key ''toolCallList'' body) (\<lambda>l.
        Option.bind (at_first l) at_function_arguments),
      Option.bind (at_key ''function'' body) (at_key ''arguments''),
      (if at_key ''name'' body \<noteq> None \<and> at_key ''email'' body \<noteq> None then Some body else None)]"

fun yields :: "json option \<Rightarrow> bool" where
  "yields None = False"
| "yields (Some v) = truthy v"

definition spec_extract_args :: "json \<Rightarrow> json option" where
  "spec_extract_args body =
     (case filter yields (spec_locations body) of [] \<Rightarrow> None | place # rest \<Rightarrow> place)"

text \<open>
  A value computed by a step of the code agrees with a place of the specification when
  a non-empty value is the value of the place, and an empty one means that the place
  holds nothing or an empty value.
\<close>

definition agrees :: "json \<Rightarrow> json option \<Rightarrow> bool" where
  "agrees v place = (if truthy v then place = Some v else \<not> yields place)"

section \<open>Example requests\<close>

text \<open>
  The requests used to instantiate the theorems below, each as the text received and as
  the value \<open>json.loads\<close> returns for it.
\<close>

definition booking_arguments :: "(string \<times> json) list" where
  "booking_arguments =
     [(''name'', JStr ''John Doe''),
      (''phone'', JStr ''+1 (555) 123-4567''),
      (''email'', JStr ''john@example.com''),
      (''date'', JStr ''2026-12-01''),
      (''time'', JStr ''14:00'')]"

definition booking_text :: string where
  \<open>booking_text = ''{"message": {"toolCallList": [{"id": "call_1", "function": {"name": "book_appointment", "arguments": {"name": "John Doe", "phone": "+1 (555) 123-4567", "email": "john@example.com", "date": "2026-12-01", "time": "14:00"}}}]}}''\<close>

definition booking_body :: json where
  "booking_body =
     JObj [(''message'', JObj [(''toolCallList'', JArr
        [JObj [(''id'', JStr ''call_1''),
               (''function'', JObj [(''name'', JStr ''book_appointment''),
                                    (''arguments'', JObj booking_arguments)])]])])]"

text \<open>No phone, and an empty time.\<close>

definition incomplete_arguments :: "(string \<times> json) list" where
  "incomplete_arguments =
     [(''name'', JStr ''John Doe''),
      (''email'', JStr ''john@example.com''),
      (''date'', JStr ''2026-12-01''),
      (''time'', JStr [])]"

definition incomplete_text :: string where
  \<open>incomplete_text = ''{"toolCall": {"id": "call_2", "function": {"arguments": {"name": "John Doe", "email": "john@example.com", "date": "2026-12-01", "time": ""}}}}''\<close>

definition incomplete_body :: json where
  "incomplete_body =
     JObj [(''toolCall'', JObj [(''id'', JStr ''call_2''),
                               (''function'', JObj [(''arguments'', JObj incomplete_arguments)])])]"

text \<open>A tool call with an identifier and no arguments anywhere.\<close>

definition no_arguments_text :: string where
  \<open>no_arguments_text = ''{"toolCall": {"id": "call_3"}}''\<close>

definition no_arguments_body :: json where
  "no_arguments_body = JObj [(''toolCall'', JObj [(''id'', JStr ''call_3'')])]"

text \<open>A body whose \<open>message\<close> is a number, and one with an empty top-level list.\<close>

definition number_message_text :: string where
  \<open>number_message_text = ''{"message": 5}''\<close>

definition number_message_body :: json where
  "number_message_body = JObj [(''message'', JInt 5)]"

definition empty_list_text :: string where
  \<open>empty_list_text = ''{"toolCallList": []}''\<close>

definition empty_list_body :: json where
  "empty_list_body = JObj [(''toolCallList'', JArr [])]"

definition example_bodies :: "(string \<times> json) list" where
  "example_bodies =
     [(booking_text, booking_body),
      (incomplete_text, incomplete_body),
      (no_arguments_text, no_arguments_body),
      (number_message_text, number_message_body),
      (empty_list_text, empty_list_body)]"

text \<open>
  \<open>json.loads\<close> on the example texts.  Every other text is answered as the empty
  body is: \<open>json.loads("")\<close> raises \<open>JSONDecodeError\<close> with this message.
\<close>

definition example_json_loads :: "string \<Rightarrow> py_exn + json" where
  "example_json_loads s =
     (case map_of example_bodies s of
        Some v \<Rightarrow> Inr v
      | None \<Rightarrow> Inl (JSONDecodeError ''Expecting value: line 1 column 1 (char 0)''))"

text \<open>
  An environment for the examples: the clock stands at 2026-11-03, one address and one
  time zone are known, the calendar client accepts every token and every event.  The
  bodies of the examples are ASCII texts.
\<close>

definition example_env :: env where
  "example_env =
     \<lparr>utf8_decodable = (\<lambda>raw. list_all (\<lambda>c. (of_char c :: nat) < 128) raw),
      json_loads = example_json_loads,
      current_date = (2026, 11, 3),
      utcnow_isoformat = ''2026-11-03T18:00:00.000000'',
      email_validator = (\<lambda>s. if s = ''john@example.com'' then Some s else None),
      pytz_known = (\<lambda>z. z = ''America/Los_Angeles''),
      render_validation_error =
        (\<lambda>es. join newline (map (\<lambda>(loc, msg, input). loc @ '': '' @ msg) es)),
      build_service = (\<lambda>tok. None),
      zoned_interval = (\<lambda>tz dt_str minutes.
         if tz = ''America/Los_Angeles'' \<and> dt_str = ''2026-12-01T14:00:00'' \<and> minutes = 60
         then Inr (''2026-12-01T14:00:00-08:00'', ''2026-12-01T15:00:00-08:00'')
         else Inl (OtherException ''not an example'')),
      events_insert = (\<lambda>body. Inr (JObj [(''id'', JStr ''evt123''),
                                         (''htmlLink'', JStr ''https://calendar.example/evt123'')]))\<rparr>"

text \<open>The same environment with a calendar provider that refuses the event.\<close>

definition refusing_env :: "string \<Rightarrow> env" where
  "refusing_env text = example_env\<lparr>events_insert := (\<lambda>body. Inl (HttpError text))\<rparr>"

definition example_token :: "(string \<times> json) list" where
  "example_token = [(''token'', JStr ''ya29.example''), (''refresh_token'', JNull)]"

definition connected :: state where
  "connected =
     \<lparr>token_store = [''default'' \<mapsto> example_token], booked_slots = [], calendar_requests = []\<rparr>"

definition not_connected :: state where
  "not_connected = \<lparr>token_store = Map.empty, booked_slots = [], calendar_requests = []\<rparr>"

definition example_appointment :: AppointmentDetails where
  "example_appointment =
     \<lparr>appt_name = ''John Doe'', appt_phone = ''+1 (555) 123-4567'',
      appt_email = ''john@example.com'', appt_date = ''2026-12-01'', appt_time = ''14:00'',
      appt_purpose = Some ''Discovery Session'', appt_timezone = ''America/Los_Angeles'',
      appt_duration_minutes = 60\<rparr>"

text \<open>A direct construction that leaves out the three fields with a default.\<close>

definition direct_kwargs :: kwargs where
  "direct_kwargs =
     \<lparr>kw_name = JStr ''John Doe'', kw_phone = JStr ''+1 (555) 123-4567'',
      kw_email = JStr ''john@example.com'', kw_date = JStr ''2026-12-01'',
      kw_time = JStr ''14:00'', kw_purpose = None, kw_timezone = None,
      kw_duration_minutes = None\<rparr>"

section \<open>Facts about strings\<close>

lemma contains_iff_sublist: "contains s sub \<longleftrightarrow> sublist sub s"
  by (induction s) (auto simp: sublist_Cons_right)

lemma sublist_join:
  assumes "x \<in> set xs"
  shows "sublist x (join sep xs)"
  using assms
proof (induction sep xs rule: join.induct)
  case (1 sep)
  then show ?case by simp
next
  case (2 sep y)
  then show ?case by simp
next
  case (3 sep y z zs)
  show ?case
  proof (cases "x = y")
    case True
    then show ?thesis by simp
  next
    case False
    with 3 have "sublist x (join sep (z # zs))" by simp
    then have "sublist x ((y @ sep) @ join sep (z # zs))"
      by (metis sublist_append)
    then show ?thesis by simp
  qed
qed

section \<open>Configuration validation\<close>

lemma collect_errors_eq:
  "collect_errors vars errors =
     errors @ map (\<lambda>p. ''Missing required environment variable: '' @ fst p)
                (filter (\<lambda>p. not_set (snd p)) vars)"
  by (induction vars errors rule: collect_errors.induct) auto

text \<open>
  The names of the settings that are unset or empty, read from the fields of the
  configuration, in the order in which \<open>validate_config\<close> checks them.
\<close>

lemma missing_names:
  "map fst (filter (\<lambda>p. not_set (snd p)) (required_vars c)) =
     (if not_set (VAPI_API_KEY c) then [''VAPI_API_KEY''] else []) @
     (if not_set (VAPI_API_PUBLIC_KEY c) then [''VAPI_API_PUBLIC_KEY''] else []) @
     (if not_set (GOOGLE_CLIENT_ID c) then [''GOOGLE_CLIENT_ID''] else []) @
     (if not_set (GOOGLE_CLIENT_SECRET c) then [''GOOGLE_CLIENT_SECRET''] else []) @
     (if not_set (GOOGLE_REDIRECT_URI c) then [''GOOGLE_REDIRECT_URI''] else []) @
     (if not_set (YOUR_EMAIL c) then [''YOUR_EMAIL''] else []) @
     (if BACKEND_URL c = [] then [''BACKEND_URL''] else [])"
  by (simp add: required_vars_def)

lemma validate_config_production:
  assumes prod: "ENVIRONMENT c = ''production''"
  shows "validate_config c =
           (let names = map fst (filter (\<lambda>p. not_set (snd p)) (required_vars c))
            in if names \<noteq> []
               then Inl (ValueError (''Configuration validation failed:'' @ newline @
                      join newline (map (\<lambda>n. ''Missing required environment variable: '' @ n)
                                      names)))
               else Inr ())"
  by (simp add: validate_config_def prod collect_errors_eq Let_def comp_def)

lemma sublist_in_suffix:
  "sublist x zs \<Longrightarrow> sublist x (ys @ zs)"
  by (metis sublist_append)

lemma message_contains_name:
  assumes "n \<in> set names"
  shows "contains (''Configuration validation failed:'' @ newline @
            join newline (map (\<lambda>n. ''Missing required environment variable: '' @ n) names)) n"
proof -
  define lines where
    "lines = map (\<lambda>n. ''Missing required environment variable: '' @ n) names"
  from assms have "''Missing required environment variable: '' @ n \<in> set lines"
    unfolding lines_def by (simp only: set_map) (rule imageI)
  then have "sublist (''Missing required environment variable: '' @ n) (join newline lines)"
    by (rule sublist_join)
  moreover have "sublist n (''Missing required environment variable: '' @ n)"
    by (rule sublist_append_leftI)
  ultimately have "sublist n (join newline lines)"
    by (rule sublist_order.order.trans[rotated])
  then have "sublist n (newline @ join newline lines)"
    by (rule sublist_in_suffix)
  then have "sublist n (''Configuration validation failed:'' @ newline @ join newline lines)"
    by (rule sublist_in_suffix)
  then show ?thesis
    unfolding contains_iff_sublist lines_def .
qed

lemma validate_config_non_production:
  "ENVIRONMENT c \<noteq> ''production'' \<Longrightarrow> validate_config c = Inr ()"
  by (simp add: validate_config_def)

text \<open>
  Claim C3.  In production, as soon as one of the seven required settings (the two
  voice-platform keys, the calendar client id, client secret and redirect URI, the
  organizer e-mail address and the backend URL) is unset or empty, \<open>validate_config\<close>
  fails with one \<open>ValueError\<close>.  Its message has one line for each setting that is
  unset or empty, in the order of the list, and for no other; so the name of every
  missing setting occurs in it, not only the first.  When all seven are set it
  returns normally, and under every other environment name it returns normally
  whatever is missing.
\<close>

theorem validate_config_reports_all_missing:
  "(ENVIRONMENT c = ''production'' \<and>
      (not_set (VAPI_API_KEY c) \<or> not_set (VAPI_API_PUBLIC_KEY c) \<or>
       not_set (GOOGLE_CLIENT_ID c) \<or> not_set (GOOGLE_CLIENT_SECRET c) \<or>
       not_set (GOOGLE_REDIRECT_URI c) \<or> not_set (YOUR_EMAIL c) \<or> BACKEND_URL c = []) \<longrightarrow>
      (\<exists>msg. validate_config c = Inl (ValueError msg)
         \<and> msg = ''Configuration validation failed:'' @ newline @
                 join newline (map (\<lambda>n. ''Missing required environment variable: '' @ n)
                   ((if not_set (VAPI_API_KEY c) then [''VAPI_API_KEY''] else []) @
                    (if not_set (VAPI_API_PUBLIC_KEY c) then [''VAPI_API_PUBLIC_KEY''] else []) @
                    (if not_set (GOOGLE_CLIENT_ID c) then [''GOOGLE_CLIENT_ID''] else []) @
                    (if not_set (GOOGLE_CLIENT_SECRET c) then [''GOOGLE_CLIENT_SECRET''] else []) @
                    (if not_set (GOOGLE_REDIRECT_URI c) then [''GOOGLE_REDIRECT_URI''] else []) @
                    (if not_set (YOUR_EMAIL c) then [''YOUR_EMAIL''] else []) @
                    (if BACKEND_URL c = [] then [''BACKEND_URL''] else [])))
         \<and> (not_set (VAPI_API_KEY c) \<longrightarrow> contains msg ''VAPI_API_KEY'')
         \<and> (not_set (VAPI_API_PUBLIC_KEY c) \<longrightarrow> contains msg ''VAPI_API_PUBLIC_KEY'')
         \<and> (not_set (GOOGLE_CLIENT_ID c) \<longrightarrow> contains msg ''GOOGLE_CLIENT_ID'')
         \<and> (not_set (GOOGLE_CLIENT_SECRET c) \<longrightarrow> contains msg ''GOOGLE_CLIENT_SECRET'')
         \<and> (not_set (GOOGLE_REDIRECT_URI c) \<longrightarrow> contains msg ''GOOGLE_REDIRECT_URI'')
         \<and> (not_set (YOUR_EMAIL c) \<longrightarrow> contains msg ''YOUR_EMAIL'')
         \<and> (BACKEND_URL c = [] \<longrightarrow> contains msg ''BACKEND_URL'')))
   \<and> (ENVIRONMENT c = ''production'' \<and>
        \<not> (not_set (VAPI_API_KEY c) \<or> not_set (VAPI_API_PUBLIC_KEY c) \<or>
           not_set (GOOGLE_CLIENT_ID c) \<or> not_set (GOOGLE_CLIENT_SECRET c) \<or>
           not_set (GOOGLE_REDIRECT_URI c) \<or> not_set (YOUR_EMAIL c) \<or> BACKEND_URL c = []) \<longrightarrow>
        validate_config c = Inr ())
   \<and> (ENVIRONMENT c \<noteq> ''production'' \<longrightarrow> validate_config c = Inr ())"
proof (intro conjI impI)
  define names where "names =
     (if not_set (VAPI_API_KEY c) then [''VAPI_API_KEY''] else []) @
     (if not_set (VAPI_API_PUBLIC_KEY c) then [''VAPI_API_PUBLIC_KEY''] else []) @
     (if not_set (GOOGLE_CLIENT_ID c) then [''GOOGLE_CLIENT_ID''] else []) @
     (if not_set (GOOGLE_CLIENT_SECRET c) then [''GOOGLE_CLIENT_SECRET''] else []) @
     (if not_set (GOOGLE_REDIRECT_URI c) then [''GOOGLE_REDIRECT_URI''] else []) @
     (if not_set (YOUR_EMAIL c) then [''YOUR_EMAIL''] else []) @
     (if BACKEND_URL c = [] then [''BACKEND_URL''] else [])"
  define msg where "msg = ''Configuration validation failed:'' @ newline @
     join newline (map (\<lambda>n. ''Missing required environment variable: '' @ n) names)"
  assume a: "ENVIRONMENT c = ''production'' \<and>
      (not_set (VAPI_API_KEY c) \<or> not_set (VAPI_API_PUBLIC_KEY c) \<or>
       not_set (GOOGLE_CLIENT_ID c) \<or> not_set (GOOGLE_CLIENT_SECRET c) \<or>
       not_set (GOOGLE_REDIRECT_URI c) \<or> not_set (YOUR_EMAIL c) \<or> BACKEND_URL c = [])"
  then have ne: "names \<noteq> []"
    unfolding names_def by auto
  have v: "validate_config c = Inl (ValueError msg)"
    using validate_config_production[of c] a ne
    unfolding missing_names names_def[symmetric] msg_def by (simp add: Let_def)
  have mem:
    "not_set (VAPI_API_KEY c) \<longrightarrow> ''VAPI_API_KEY'' \<in> set names"
    "not_set (VAPI_API_PUBLIC_KEY c) \<longrightarrow> ''VAPI_API_PUBLIC_KEY'' \<in> set names"
    "not_set (GOOGLE_CLIENT_ID c) \<longrightarrow> ''GOOGLE_CLIENT_ID'' \<in> set names"
    "not_set (GOOGLE_CLIENT_SECRET c) \<longrightarrow> ''GOOGLE_CLIENT_SECRET'' \<in> set names"
    "not_set (GOOGLE_REDIRECT_URI c) \<longrightarrow> ''GOOGLE_REDIRECT_URI'' \<in> set names"
    "not_set (YOUR_EMAIL c) \<longrightarrow> ''YOUR_EMAIL'' \<in> set names"
    "BACKEND_URL c = [] \<longrightarrow> ''BACKEND_URL'' \<in> set names"
    unfolding names_def by simp_all
  have c: "n \<in> set names \<Longrightarrow> contains msg n" for n
    unfolding msg_def by (rule message_contains_name)
  show "\<exists>msg. validate_config c = Inl (ValueError msg)
         \<and> msg = ''Configuration validation failed:'' @ newline @
                 join newline (map (\<lambda>n. ''Missing required environment variable: '' @ n)
                   ((if not_set (VAPI_API_KEY c) then [''VAPI_API_KEY''] else []) @
                    (if not_set (VAPI_API_PUBLIC_KEY c) then [''VAPI_API_PUBLIC_KEY''] else []) @
                    (if not_set (GOOGLE_CLIENT_ID c) then [''GOOGLE_CLIENT_ID''] else []) @
                    (if not_set (GOOGLE_CLIENT_SECRET c) then [''GOOGLE_CLIENT_SECRET''] else []) @
                    (if not_set (GOOGLE_REDIRECT_URI c) then [''GOOGLE_REDIRECT_URI''] else []) @
                    (if not_set (YOUR_EMAIL c) then [''YOUR_EMAIL''] else []) @
                    (if BACKEND_URL c = [] then [''BACKEND_URL''] else [])))
         \<and> (not_set (VAPI_API_KEY c) \<longrightarrow> contains msg ''VAPI_API_KEY'')
         \<and> (not_set (VAPI_API_PUBLIC_KEY c) \<longrightarrow> contains msg ''VAPI_API_PUBLIC_KEY'')
         \<and> (not_set (GOOGLE_CLIENT_ID c) \<longrightarrow> contains msg ''GOOGLE_CLIENT_ID'')
         \<and> (not_set (GOOGLE_CLIENT_SECRET c) \<longrightarrow> contains msg ''GOOGLE_CLIENT_SECRET'')
         \<and> (not_set (GOOGLE_REDIRECT_URI c) \<longrightarrow> contains msg ''GOOGLE_REDIRECT_URI'')
         \<and> (not_set (YOUR_EMAIL c) \<longrightarrow> contains msg ''YOUR_EMAIL'')
         \<and> (BACKEND_URL c = [] \<longrightarrow> contains msg ''BACKEND_URL'')"
    unfolding names_def[symmetric]
  proof (intro exI[of _ msg] conjI)
    show "validate_config c = Inl (ValueError msg)" by (rule v)
    show "msg = ''Configuration validation failed:'' @ newline @
            join newline (map (\<lambda>n. ''Missing required environment variable: '' @ n) names)"
      by (rule msg_def)
  qed (use mem c in blast)+
next
  assume a: "ENVIRONMENT c = ''production'' \<and>
        \<not> (not_set (VAPI_API_KEY c) \<or> not_set (VAPI_API_PUBLIC_KEY c) \<or>
           not_set (GOOGLE_CLIENT_ID c) \<or> not_set (GOOGLE_CLIENT_SECRET c) \<or>
           not_set (GOOGLE_REDIRECT_URI c) \<or> not_set (YOUR_EMAIL c) \<or> BACKEND_URL c = [])"
  then show "validate_config c = Inr ()"
    using validate_config_production[of c] unfolding missing_names by (simp add: Let_def)
next
  assume "ENVIRONMENT c \<noteq> ''production''"
  then show "validate_config c = Inr ()"
    by (rule validate_config_non_production)
qed

theorem validate_config_reports_all_missing_witness:
  "ENVIRONMENT production_config = ''production''
   \<and> not_set (VAPI_API_KEY production_config)
   \<and> not_set (YOUR_EMAIL production_config)
   \<and> validate_config production_config =
        Inl (ValueError (''Configuration validation failed:'' @ newline @
               ''Missing required environment variable: VAPI_API_KEY'' @ newline @
               ''Missing required environment variable: YOUR_EMAIL''))
   \<and> (\<exists>msg. validate_config production_config = Inl (ValueError msg)
          \<and> contains msg ''VAPI_API_KEY'' \<and> contains msg ''YOUR_EMAIL'')
   \<and> ENVIRONMENT (production_config\<lparr>VAPI_API_KEY := Some ''sk'', YOUR_EMAIL := Some ''team@example.com''\<rparr>)
        = ''production''
   \<and> validate_config
        (production_config\<lparr>VAPI_API_KEY := Some ''sk'', YOUR_EMAIL := Some ''team@example.com''\<rparr>)
        = Inr ()
   \<and> ENVIRONMENT development_config \<noteq> ''production''
   \<and> not_set (VAPI_API_KEY development_config)
   \<and> validate_config development_config = Inr ()"
proof -
  let ?full = "production_config\<lparr>VAPI_API_KEY := Some ''sk'', YOUR_EMAIL := Some ''team@example.com''\<rparr>"
  have p: "ENVIRONMENT production_config = ''production''"
    and k: "not_set (VAPI_API_KEY production_config)"
    and e: "not_set (YOUR_EMAIL production_config)"
    and others: "\<not> not_set (VAPI_API_PUBLIC_KEY production_config)"
      "\<not> not_set (GOOGLE_CLIENT_ID production_config)"
      "\<not> not_set (GOOGLE_CLIENT_SECRET production_config)"
      "\<not> not_set (GOOGLE_REDIRECT_URI production_config)"
      "BACKEND_URL production_config \<noteq> []"
    by (simp_all add: production_config_def)
  from validate_config_reports_all_missing[of production_config] p k e
  obtain msg where msg: "validate_config production_config = Inl (ValueError msg)"
    and c1: "contains msg ''VAPI_API_KEY''" and c2: "contains msg ''YOUR_EMAIL''"
    and eq: "msg = ''Configuration validation failed:'' @ newline @
                 join newline (map (\<lambda>n. ''Missing required environment variable: '' @ n)
                   ((if not_set (VAPI_API_KEY production_config) then [''VAPI_API_KEY''] else []) @
                    (if not_set (VAPI_API_PUBLIC_KEY production_config) then [''VAPI_API_PUBLIC_KEY''] else []) @
                    (if not_set (GOOGLE_CLIENT_ID production_config) then [''GOOGLE_CLIENT_ID''] else []) @
                    (if not_set (GOOGLE_CLIENT_SECRET production_config) then [''GOOGLE_CLIENT_SECRET''] else []) @
                    (if not_set (GOOGLE_REDIRECT_URI production_config) then [''GOOGLE_REDIRECT_URI''] else []) @
                    (if not_set (YOUR_EMAIL production_config) then [''YOUR_EMAIL''] else []) @
                    (if BACKEND_URL production_config = [] then [''BACKEND_URL''] else [])))"
    by blast
  from eq k e others have "msg = ''Configuration validation failed:'' @ newline @
               ''Missing required environment variable: VAPI_API_KEY'' @ newline @
               ''Missing required environment variable: YOUR_EMAIL''"
    by simp
  with msg have v: "validate_config production_config =
        Inl (ValueError (''Configuration validation failed:'' @ newline @
               ''Missing required environment variable: VAPI_API_KEY'' @ newline @
               ''Missing required environment variable: YOUR_EMAIL''))"
    by simp
  have fp: "ENVIRONMENT ?full = ''production''"
    and fs: "\<not> (not_set (VAPI_API_KEY ?full) \<or> not_set (VAPI_API_PUBLIC_KEY ?full) \<or>
           not_set (GOOGLE_CLIENT_ID ?full) \<or> not_set (GOOGLE_CLIENT_SECRET ?full) \<or>
           not_set (GOOGLE_REDIRECT_URI ?full) \<or> not_set (YOUR_EMAIL ?full) \<or> BACKEND_URL ?full = [])"
    by (simp_all add: production_config_def)
  with validate_config_reports_all_missing[of ?full]
  have f: "validate_config ?full = Inr ()" by blast
  have d: "ENVIRONMENT development_config \<noteq> ''production''"
    and dk: "not_set (VAPI_API_KEY development_config)"
    by (simp_all add: development_config_def)
  with validate_config_reports_all_missing[of development_config]
  have r: "validate_config development_config = Inr ()" by blast
  from p k e v msg c1 c2 fp f d dk r show ?thesis by blast
qed

section \<open>Date validation\<close>

lemma strptime_Y_m_d_raises_ValueError:
  "strptime_Y_m_d v = Inl e \<Longrightarrow> is_ValueError e"
  by (auto simp: strptime_Y_m_d_def split: list.splits if_splits)

lemma validate_date_unparseable:
  "strptime_Y_m_d v = Inl e \<Longrightarrow>
     validate_date today v = Inl (ValueError ''Date must be in YYYY-MM-DD format'')"
  using strptime_Y_m_d_raises_ValueError[of v e]
  by (simp add: validate_date_def bind_exn_def)

lemma validate_date_today_or_later:
  "strptime_Y_m_d v = Inr d \<Longrightarrow> \<not> date_less d today \<Longrightarrow> validate_date today v = Inr v"
  by (simp add: validate_date_def bind_exn_def)

lemmas date_eval =
  validate_date_def bind_exn_def strptime_Y_m_d_def regex_Y_m_d_def regex_m_def regex_d_def
  is_digit_def char_between_def digit_val_def valid_date_def days_in_month_def is_leap_def
  date_less_def

text \<open>
  Claim C2, at the point where the code departs from it.  A text that parses as a date
  strictly before the current date is rejected, but the message is the one for a wrong
  format: the \<open>ValueError\<close> "Date must be in the future" of line 41 is raised inside
  the \<open>try\<close> whose \<open>except ValueError\<close> clause replaces it.  (The two other cases of
  the claim hold: \<open>validate_date_unparseable\<close> and \<open>validate_date_today_or_later\<close>.)
\<close>

theorem validate_date_past_reports_format:
  assumes "strptime_Y_m_d v = Inr d" and "date_less d today"
  shows "validate_date today v = Inl (ValueError ''Date must be in YYYY-MM-DD format'')
         \<and> validate_date today v \<noteq> Inl (ValueError ''Date must be in the future'')"
  using assms by (simp add: validate_date_def bind_exn_def)

theorem validate_date_past_reports_format_witness:
  "strptime_Y_m_d ''2020-01-01'' = Inr (2020, 1, 1)
   \<and> date_less (2020, 1, 1) (2026, 11, 3)
   \<and> validate_date (2026, 11, 3) ''2020-01-01'' =
        Inl (ValueError ''Date must be in YYYY-MM-DD format'')
   \<and> validate_date (2026, 11, 3) ''2020-01-01'' \<noteq> Inl (ValueError ''Date must be in the future'')"
proof -
  have p: "strptime_Y_m_d ''2020-01-01'' = Inr (2020, 1, 1)"
    by (simp add: date_eval)
  have l: "date_less (2020, 1, 1) (2026, 11, 3)"
    by (simp add: date_less_def)
  from validate_date_past_reports_format[OF p l] p l show ?thesis by blast
qed

section \<open>The tool endpoint\<close>

subsection \<open>The shape of the answers\<close>

lemma except_clauses_bound:
  "\<exists>msg. except_clauses (Some t) e = Inr (vapi_response t (JStr msg))"
  by (cases e) (auto simp: except_clauses_def read_local_def bind_exn_def Let_def)

lemma except_clauses_unbound:
  "\<exists>m. except_clauses None e = Inl (UnboundLocalError m)"
  by (cases e) (simp_all add: except_clauses_def read_local_def bind_exn_def Let_def)

lemma handle_tool_call_envelope:
  assumes "handle_tool_call env cfg st body t = (Inr r, st')"
  shows "\<exists>msg. r = vapi_response t msg"
  using assms
  by (auto simp: handle_tool_call_def
           split: sum.splits if_splits option.splits json.splits prod.splits)

text \<open>
  Once the body has been decoded and parsed, every path of the handler ends in the
  envelope \<open>{results: [{toolCallId, result}]}\<close>, sent with status 200.
\<close>

lemma book_appointment_tool_parsed:
  assumes "utf8_decodable env raw" and "json_loads env raw = Inr body"
  shows "\<exists>t msg st'. book_appointment_tool env cfg st raw = (Inr (vapi_response t msg), st')"
proof (cases "extract_tool_call_id body")
  case (Pair t oe)
  show ?thesis
  proof (cases oe)
    case (Some e)
    with Pair assms except_clauses_bound[of t e] show ?thesis
      by (auto simp: book_appointment_tool_def)
  next
    case None
    obtain res st' where h: "handle_tool_call env cfg st body t = (res, st')"
      by (cases "handle_tool_call env cfg st body t")
    show ?thesis
    proof (cases res)
      case (Inl e)
      with h None Pair assms except_clauses_bound[of t e] show ?thesis
        by (auto simp: book_appointment_tool_def)
    next
      case (Inr r)
      with h handle_tool_call_envelope[of env cfg st body t r st'] None Pair assms show ?thesis
        by (auto simp: book_appointment_tool_def)
    qed
  qed
qed

lemma book_appointment_tool_undecodable:
  "\<not> utf8_decodable env raw \<Longrightarrow>
     \<exists>m. book_appointment_tool env cfg st raw = (Inl (UnicodeDecodeError m), st)"
  by (simp add: book_appointment_tool_def)

text \<open>
  Claim C1, at the point where the code departs from it.  When \<open>json.loads\<close> raises
  on the request body (an empty body, a body that is not JSON), the \<open>except\<close> clause
  that handles the exception reads \<open>tool_call_id\<close>, which is assigned only on line 352,
  after the parse.  The \<open>UnboundLocalError\<close> raised there leaves the handler, and the
  request is answered with status 500 instead of the envelope.
\<close>

theorem book_appointment_tool_unparseable_body:
  assumes "utf8_decodable env raw" and "json_loads env raw = Inl e"
  shows "(\<exists>m. book_appointment_tool env cfg st raw = (Inl (UnboundLocalError m), st))
         \<and> http_status (fst (book_appointment_tool env cfg st raw)) = 500"
proof -
  from except_clauses_unbound[of e]
  obtain m where "except_clauses None e = Inl (UnboundLocalError m)" ..
  with assms have "book_appointment_tool env cfg st raw = (Inl (UnboundLocalError m), st)"
    by (simp add: book_appointment_tool_def)
  then show ?thesis by (simp add: http_status_def)
qed

subsection \<open>The stages of a request\<close>

lemma book_appointment_tool_stages:
  assumes "utf8_decodable env raw" and "json_loads env raw = Inr body"
    and "extract_tool_call_id body = (tid, None)"
  shows "book_appointment_tool env cfg st raw =
           (case handle_tool_call env cfg st body tid of
              (Inl e, st') \<Rightarrow> (except_clauses (Some tid) e, st')
            | (Inr response, st') \<Rightarrow> (Inr response, st'))"
  using assms by (simp add: book_appointment_tool_def)

lemma handle_tool_call_validated:
  assumes "extract_args body = Inr args" and "truthy args"
    and "decode_args env args = Inr (Some (JObj kv))"
    and "missing_fields (JObj kv) = Inr []"
    and "AppointmentDetails_init env cfg (appointment_kwargs cfg kv) = Inr appt"
  shows "handle_tool_call env cfg st body tid =
           (case create_google_calendar_event env cfg st appt of
              (Inl e, st') \<Rightarrow> (Inl e, st')
            | (Inr result, st') \<Rightarrow>
                if \<not> truthy (dict_get result ''success'' JNull)
                then (Inr (vapi_response tid
                             (dict_get result ''error''
                                (JStr ''Failed to create calendar event. Please try again.''))), st')
                else (Inr (vapi_response tid
                             (JStr (''Your session is booked! A calendar invite has been sent to '' @
                                    appt_email appt @
                                    ''. We look forward to speaking with you!''))), st'))"
  using assms by (simp add: handle_tool_call_def)

lemma create_event_not_connected:
  assumes "token_store st ''default'' = None"
  shows "create_google_calendar_event env cfg st appt =
           (Inl (HTTPException 401 ''Google Calendar not connected. Please authenticate first.''), st)"
  using assms
  by (simp add: create_google_calendar_event_def create_event_try_def get_calendar_service_def)

lemma create_event_success:
  assumes "token_store st ''default'' = Some tok" and "build_service env tok = None"
    and "zoned_interval env (appt_timezone appt)
           (appt_date appt @ ''T'' @ appt_time appt @ '':00'') (appt_duration_minutes appt)
         = Inr (start_iso, end_iso)"
    and "events_insert env (event_body cfg appt start_iso end_iso) = Inr (JObj created)"
  shows "create_google_calendar_event env cfg st appt =
           (Inr [(''success'', JBool True),
                 (''event_id'', dict_get created ''id'' JNull),
                 (''event_link'', dict_get created ''htmlLink'' JNull),
                 (''start'', JStr start_iso),
                 (''end'', JStr end_iso)],
            st\<lparr>calendar_requests := calendar_requests st @ [event_body cfg appt start_iso end_iso],
               booked_slots := booked_slots st @
                 [booked_slot env appt (dict_get created ''id'' JNull)
                    (dict_get created ''htmlLink'' JNull)]\<rparr>)"
  using assms
  by (simp add: create_google_calendar_event_def create_event_try_def get_calendar_service_def
                Let_def)

subsection \<open>Booking\<close>

text \<open>
  Claim C4.  Take a request whose body parses, whose tool-call identifier and arguments
  are found, whose arguments name every required field and pass the validation of
  \<open>AppointmentDetails\<close>; let a credential be stored under \<open>default\<close>, and let the
  calendar client build and the provider accept the event.  Then the handler appends
  exactly one record to \<open>booked_slots\<close>, carrying the event id, the name, the e-mail
  address, the phone, the date, the time, the purpose, the event link and the UTC
  creation time, and answers that the session is booked and that the invite was sent to
  the validated e-mail address.  One event was handed to the provider.
\<close>

theorem booking_appends_slot_and_confirms:
  assumes "utf8_decodable env raw" and "json_loads env raw = Inr body"
    and "extract_tool_call_id body = (tid, None)"
    and "extract_args body = Inr args" and "truthy args"
    and "decode_args env args = Inr (Some (JObj kv))"
    and "missing_fields (JObj kv) = Inr []"
    and "AppointmentDetails_init env cfg (appointment_kwargs cfg kv) = Inr appt"
    and "token_store st ''default'' = Some tok" and "build_service env tok = None"
    and "zoned_interval env (appt_timezone appt)
           (appt_date appt @ ''T'' @ appt_time appt @ '':00'') (appt_duration_minutes appt)
         = Inr (start_iso, end_iso)"
    and "events_insert env (event_body cfg appt start_iso end_iso) = Inr (JObj created)"
  shows "book_appointment_tool env cfg st raw =
           (Inr (vapi_response tid
                   (JStr (''Your session is booked! A calendar invite has been sent to '' @
                          appt_email appt @ ''. We look forward to speaking with you!''))),
            st\<lparr>calendar_requests := calendar_requests st @ [event_body cfg appt start_iso end_iso],
               booked_slots := booked_slots st @
                 [JObj [(''event_id'', dict_get created ''id'' JNull),
                        (''name'', JStr (appt_name appt)),
                        (''email'', JStr (appt_email appt)),
                        (''phone'', JStr (appt_phone appt)),
                        (''date'', JStr (appt_date appt)),
                        (''time'', JStr (appt_time appt)),
                        (''purpose'', json_of_option (appt_purpose appt)),
                        (''event_link'', dict_get created ''htmlLink'' JNull),
                        (''created_at'', JStr (utcnow_isoformat env))]]\<rparr>)"
  using book_appointment_tool_stages[OF assms(1-3)]
        handle_tool_call_validated[OF assms(4-8)] create_event_success[OF assms(9-12)]
  by (simp add: dict_get_def booked_slot_def)

text \<open>
  Claim C5.  The same request, when nothing is stored under \<open>default\<close>: the handler
  answers "Google Calendar not connected. Please authenticate first." and the state is
  unchanged: no slot is appended and no event is handed to the provider.
\<close>

theorem not_connected_answer:
  assumes "utf8_decodable env raw" and "json_loads env raw = Inr body"
    and "extract_tool_call_id body = (tid, None)"
    and "extract_args body = Inr args" and "truthy args"
    and "decode_args env args = Inr (Some (JObj kv))"
    and "missing_fields (JObj kv) = Inr []"
    and "AppointmentDetails_init env cfg (appointment_kwargs cfg kv) = Inr appt"
    and "token_store st ''default'' = None"
  shows "book_appointment_tool env cfg st raw =
           (Inr (vapi_response tid
                   (JStr ''Google Calendar not connected. Please authenticate first.'')), st)"
proof -
  have "handle_tool_call env cfg st body tid =
          (Inl (HTTPException 401 ''Google Calendar not connected. Please authenticate first.''), st)"
    using handle_tool_call_validated[OF assms(4-8)] create_event_not_connected[OF assms(9)]
    by simp
  then show ?thesis
    using book_appointment_tool_stages[OF assms(1-3)]
    by (simp add: except_clauses_def read_local_def bind_exn_def)
qed

section \<open>The example requests, stage by stage\<close>

lemmas example_texts =
  booking_text_def incomplete_text_def no_arguments_text_def number_message_text_def
  empty_list_text_def

lemmas extraction_eval =
  extract_tool_call_id_def id_from_message_def id_from_toolCall_def id_from_toolCallList_def
  extract_args_def args_from_message_def args_from_toolCall_def args_from_toolCallList_def
  args_from_function_def args_from_body_def function_arguments_def bind_exn_def dict_get_def

lemmas validation_eval =
  AppointmentDetails_init_def appointment_kwargs_def dict_get_def name_field_def phone_field_def
  email_field_def date_field_def time_field_def purpose_field_def timezone_field_def
  duration_minutes_field_def str_field_def str_or_int_field_def run_validator_def
  validate_phone_def phone_regex_match_def phone_char_def is_space_def validate_time_def
  strptime_H_M_def regex_H_M_def regex_H_def regex_M_def validate_timezone_def date_eval

lemma example_loads_empty:
  "utf8_decodable example_env [] \<and>
   json_loads example_env [] = Inl (JSONDecodeError ''Expecting value: line 1 column 1 (char 0)'')"
  by (simp add: example_env_def example_json_loads_def example_bodies_def example_texts)

lemma example_booking_parsed:
  "utf8_decodable example_env booking_text \<and> json_loads example_env booking_text = Inr booking_body"
  by (simp add: example_env_def example_json_loads_def example_bodies_def booking_text_def)

lemma example_booking_extracted:
  "extract_tool_call_id booking_body = (JStr ''call_1'', None) \<and>
   extract_args booking_body = Inr (JObj booking_arguments) \<and>
   truthy (JObj booking_arguments) \<and>
   decode_args example_env (JObj booking_arguments) = Inr (Some (JObj booking_arguments)) \<and>
   missing_fields (JObj booking_arguments) = Inr []"
  by (simp add: extraction_eval booking_body_def booking_arguments_def decode_args_def
                missing_fields_def required_fields_def)

lemma example_booking_validated:
  "AppointmentDetails_init example_env development_config
     (appointment_kwargs development_config booking_arguments) = Inr example_appointment"
  by (simp add: validation_eval booking_arguments_def example_env_def development_config_def
                example_appointment_def)

theorem book_appointment_tool_unparseable_body_witness:
  "utf8_decodable example_env [] \<and>
   json_loads example_env [] = Inl (JSONDecodeError ''Expecting value: line 1 column 1 (char 0)'') \<and>
   (\<exists>m. book_appointment_tool example_env development_config connected [] =
          (Inl (UnboundLocalError m), connected)) \<and>
   http_status (fst (book_appointment_tool example_env development_config connected [])) = 500"
  using book_appointment_tool_unparseable_body[of example_env "[]" _ development_config connected]
        example_loads_empty
  by blast

theorem not_connected_answer_witness:
  "utf8_decodable example_env booking_text \<and>
   json_loads example_env booking_text = Inr booking_body \<and>
   extract_tool_call_id booking_body = (JStr ''call_1'', None) \<and>
   extract_args booking_body = Inr (JObj booking_arguments) \<and>
   truthy (JObj booking_arguments) \<and>
   decode_args example_env (JObj booking_arguments) = Inr (Some (JObj booking_arguments)) \<and>
   missing_fields (JObj booking_arguments) = Inr [] \<and>
   AppointmentDetails_init example_env development_config
     (appointment_kwargs development_config booking_arguments) = Inr example_appointment \<and>
   token_store not_connected ''default'' = None \<and>
   book_appointment_tool example_env development_config not_connected booking_text =
     (Inr (vapi_response (JStr ''call_1'')
             (JStr ''Google Calendar not connected. Please authenticate first.'')),
      not_connected)"
proof -
  have t: "token_store not_connected ''default'' = None"
    by (simp add: not_connected_def)
  from example_booking_parsed example_booking_extracted example_booking_validated t
    not_connected_answer[of example_env booking_text booking_body "JStr ''call_1''"
      "JObj booking_arguments" booking_arguments development_config example_appointment
      not_connected]
  show ?thesis by blast
qed

lemma example_calendar:
  "token_store connected ''default'' = Some example_token \<and>
   build_service example_env example_token = None \<and>
   zoned_interval example_env (appt_timezone example_appointment)
     (appt_date example_appointment @ ''T'' @ appt_time example_appointment @ '':00'')
     (appt_duration_minutes example_appointment)
     = Inr (''2026-12-01T14:00:00-08:00'', ''2026-12-01T15:00:00-08:00'') \<and>
   events_insert example_env
     (event_body development_config example_appointment
        ''2026-12-01T14:00:00-08:00'' ''2026-12-01T15:00:00-08:00'')
     = Inr (JObj [(''id'', JStr ''evt123''), (''htmlLink'', JStr ''https://calendar.example/evt123'')])"
  by (simp add: connected_def example_env_def example_appointment_def)

theorem booking_appends_slot_and_confirms_witness:
  "utf8_decodable example_env booking_text \<and>
   json_loads example_env booking_text = Inr booking_body \<and>
   extract_tool_call_id booking_body = (JStr ''call_1'', None) \<and>
   extract_args booking_body = Inr (JObj booking_arguments) \<and>
   truthy (JObj booking_arguments) \<and>
   decode_args example_env (JObj booking_arguments) = Inr (Some (JObj booking_arguments)) \<and>
   missing_fields (JObj booking_arguments) = Inr [] \<and>
   AppointmentDetails_init example_env development_config
     (appointment_kwargs development_config booking_arguments) = Inr example_appointment \<and>
   token_store connected ''default'' = Some example_token \<and>
   build_service example_env example_token = None \<and>
   book_appointment_tool example_env development_config connected booking_text =
     (Inr (vapi_response (JStr ''call_1'')
             (JStr ''Your session is booked! A calendar invite has been sent to john@example.com. We look forward to speaking with you!'')),
      connected\<lparr>calendar_requests :=
                   [event_body development_config example_appointment
                      ''2026-12-01T14:00:00-08:00'' ''2026-12-01T15:00:00-08:00''],
                booked_slots :=
                   [JObj [(''event_id'', JStr ''evt123''),
                          (''name'', JStr ''John Doe''),
                          (''email'', JStr ''john@example.com''),
                          (''phone'', JStr ''+1 (555) 123-4567''),
                          (''date'', JStr ''2026-12-01''),
                          (''time'', JStr ''14:00''),
                          (''purpose'', JStr ''Discovery Session''),
                          (''event_link'', JStr ''https://calendar.example/evt123''),
                          (''created_at'', JStr ''2026-11-03T18:00:00.000000'')]]\<rparr>)"
proof -
  note p = example_booking_parsed and x = example_booking_extracted
    and v = example_booking_validated and c = example_calendar
  have "book_appointment_tool example_env development_config connected booking_text =
     (Inr (vapi_response (JStr ''call_1'')
             (JStr (''Your session is booked! A calendar invite has been sent to '' @
                    appt_email example_appointment @ ''. We look forward to speaking with you!''))),
      connected\<lparr>calendar_requests := calendar_requests connected @
                   [event_body development_config example_appointment
                      ''2026-12-01T14:00:00-08:00'' ''2026-12-01T15:00:00-08:00''],
                booked_slots := booked_slots connected @
                   [JObj [(''event_id'', dict_get [(''id'', JStr ''evt123''), (''htmlLink'', JStr ''https://calendar.example/evt123'')] ''id'' JNull),
                        (''name'', JStr (appt_name example_appointment)),
                        (''email'', JStr (appt_email example_appointment)),
                        (''phone'', JStr (appt_phone example_appointment)),
                        (''date'', JStr (appt_date example_appointment)),
                        (''time'', JStr (appt_time example_appointment)),
                        (''purpose'', json_of_option (appt_purpose example_appointment)),
                        (''event_link'', dict_get [(''id'', JStr ''evt123''), (''htmlLink'', JStr ''https://calendar.example/evt123'')] ''htmlLink'' JNull),
                        (''created_at'', JStr (utcnow_isoformat example_env))]]\<rparr>)"
    by (rule booking_appends_slot_and_confirms[OF p[THEN conjunct1] p[THEN conjunct2]
          x[THEN conjunct1] x[THEN conjunct2, THEN conjunct1]
          x[THEN conjunct2, THEN conjunct2, THEN conjunct1]
          x[THEN conjunct2, THEN conjunct2, THEN conjunct2, THEN conjunct1]
          x[THEN conjunct2, THEN conjunct2, THEN conjunct2, THEN conjunct2]
          v c[THEN conjunct1] c[THEN conjunct2, THEN conjunct1]
          c[THEN conjunct2, THEN conjunct2, THEN conjunct1]
          c[THEN conjunct2, THEN conjunct2, THEN conjunct2]])
  then have "book_appointment_tool example_env development_config connected booking_text =
     (Inr (vapi_response (JStr ''call_1'')
             (JStr ''Your session is booked! A calendar invite has been sent to john@example.com. We look forward to speaking with you!'')),
      connected\<lparr>calendar_requests :=
                   [event_body development_config example_appointment
                      ''2026-12-01T14:00:00-08:00'' ''2026-12-01T15:00:00-08:00''],
                booked_slots :=
                   [JObj [(''event_id'', JStr ''evt123''),
                          (''name'', JStr ''John Doe''),
                          (''email'', JStr ''john@example.com''),
                          (''phone'', JStr ''+1 (555) 123-4567''),
                          (''date'', JStr ''2026-12-01''),
                          (''time'', JStr ''14:00''),
                          (''purpose'', JStr ''Discovery Session''),
                          (''event_link'', JStr ''https://calendar.example/evt123''),
                          (''created_at'', JStr ''2026-11-03T18:00:00.000000'')]]\<rparr>)"
    by (simp add: example_appointment_def connected_def dict_get_def json_of_option_def
                  example_env_def)
  with p x v c show ?thesis by blast
qed


section \<open>Provider errors and missing fields\<close>

lemma create_event_try_failure_keeps_slots:
  assumes "create_event_try env cfg st appt = (Inl e, st')"
  shows "booked_slots st' = booked_slots st"
  using assms
  by (auto simp: create_event_try_def Let_def split: sum.splits prod.splits)

lemma create_event_try_provider_error:
  assumes "token_store st ''default'' = Some tok" and "build_service env tok = None"
    and "zoned_interval env (appt_timezone appt)
           (appt_date appt @ ''T'' @ appt_time appt @ '':00'') (appt_duration_minutes appt)
         = Inr (start_iso, end_iso)"
    and "events_insert env (event_body cfg appt start_iso end_iso) = Inl e"
  shows "create_event_try env cfg st appt =
           (Inl e, st\<lparr>calendar_requests :=
                         calendar_requests st @ [event_body cfg appt start_iso end_iso]\<rparr>)"
  using assms
  by (simp add: create_event_try_def get_calendar_service_def Let_def)

text \<open>
  Claim C6.  When the body of \<open>create_google_calendar_event\<close> raises the provider's
  \<open>HttpError\<close>, the function returns the failure "Calendar permission denied. Please
  re-authenticate." if the text of the error contains "403"; otherwise, if the text
  contains "409", it returns the failure "Time slot conflict detected."; otherwise it
  raises \<open>HTTPException\<close> with status 500.  No slot is appended.  An exception that is
  not the provider's \<open>HttpError\<close> is never turned into a returned failure: it leaves
  the function unchanged.
\<close>

theorem provider_error_mapping:
  "(create_event_try env cfg st appt = (Inl (HttpError text), st') \<longrightarrow>
      create_google_calendar_event env cfg st appt =
        (if contains text ''403''
         then Inr [(''success'', JBool False),
                   (''error'', JStr ''Calendar permission denied. Please re-authenticate.'')]
         else if contains text ''409''
         then Inr [(''success'', JBool False), (''error'', JStr ''Time slot conflict detected.'')]
         else Inl (HTTPException 500 (''Calendar error: '' @ text)),
         st')
      \<and> booked_slots st' = booked_slots st)
   \<and> (create_event_try env cfg st appt = (Inl e, st') \<and> (\<forall>t. e \<noteq> HttpError t) \<longrightarrow>
        create_google_calendar_event env cfg st appt = (Inl e, st'))"
proof (intro conjI impI)
  assume a: "create_event_try env cfg st appt = (Inl (HttpError text), st')"
  then show "create_google_calendar_event env cfg st appt =
        (if contains text ''403''
         then Inr [(''success'', JBool False),
                   (''error'', JStr ''Calendar permission denied. Please re-authenticate.'')]
         else if contains text ''409''
         then Inr [(''success'', JBool False), (''error'', JStr ''Time slot conflict detected.'')]
         else Inl (HTTPException 500 (''Calendar error: '' @ text)),
         st')"
    by (simp add: create_google_calendar_event_def)
  from a show "booked_slots st' = booked_slots st"
    by (rule create_event_try_failure_keeps_slots)
next
  assume "create_event_try env cfg st appt = (Inl e, st') \<and> (\<forall>t. e \<noteq> HttpError t)"
  then show "create_google_calendar_event env cfg st appt = (Inl e, st')"
    by (cases e) (simp_all add: create_google_calendar_event_def)
qed




section \<open>Provider errors and missing fields on the examples\<close>

lemma example_refused:
  "create_event_try (refusing_env text) development_config connected example_appointment =
     (Inl (HttpError text),
      connected\<lparr>calendar_requests :=
                  [event_body development_config example_appointment
                     ''2026-12-01T14:00:00-08:00'' ''2026-12-01T15:00:00-08:00'']\<rparr>)"
proof -
  have "create_event_try (refusing_env text) development_config connected example_appointment =
     (Inl (HttpError text),
      connected\<lparr>calendar_requests := calendar_requests connected @
                  [event_body development_config example_appointment
                     ''2026-12-01T14:00:00-08:00'' ''2026-12-01T15:00:00-08:00'']\<rparr>)"
    by (rule create_event_try_provider_error[where tok = example_token])
       (simp_all add: refusing_env_def example_env_def connected_def example_appointment_def)
  then show ?thesis by (simp add: connected_def)
qed

lemma example_not_connected_try:
  "create_event_try example_env development_config not_connected example_appointment =
     (Inl (HTTPException 401 ''Google Calendar not connected. Please authenticate first.''),
      not_connected)"
  by (simp add: create_event_try_def get_calendar_service_def not_connected_def)

theorem provider_error_mapping_witness:
  "create_event_try (refusing_env ''HttpError 409 when requesting events: Conflict'')
       development_config connected example_appointment =
     (Inl (HttpError ''HttpError 409 when requesting events: Conflict''),
      connected\<lparr>calendar_requests :=
                  [event_body development_config example_appointment
                     ''2026-12-01T14:00:00-08:00'' ''2026-12-01T15:00:00-08:00'']\<rparr>)
   \<and> create_google_calendar_event (refusing_env ''HttpError 409 when requesting events: Conflict'')
       development_config connected example_appointment =
     (Inr [(''success'', JBool False), (''error'', JStr ''Time slot conflict detected.'')],
      connected\<lparr>calendar_requests :=
                  [event_body development_config example_appointment
                     ''2026-12-01T14:00:00-08:00'' ''2026-12-01T15:00:00-08:00'']\<rparr>)
   \<and> fst (create_google_calendar_event (refusing_env ''HttpError 403 when requesting events: Forbidden'')
       development_config connected example_appointment) =
     Inr [(''success'', JBool False),
          (''error'', JStr ''Calendar permission denied. Please re-authenticate.'')]
   \<and> fst (create_google_calendar_event (refusing_env ''HttpError 500 when requesting events: Backend Error'')
       development_config connected example_appointment) =
     Inl (HTTPException 500 ''Calendar error: HttpError 500 when requesting events: Backend Error'')
   \<and> create_event_try example_env development_config not_connected example_appointment =
     (Inl (HTTPException 401 ''Google Calendar not connected. Please authenticate first.''),
      not_connected)
   \<and> create_google_calendar_event example_env development_config not_connected example_appointment =
     (Inl (HTTPException 401 ''Google Calendar not connected. Please authenticate first.''),
      not_connected)"
proof -
  let ?st = "connected\<lparr>calendar_requests :=
                  [event_body development_config example_appointment
                     ''2026-12-01T14:00:00-08:00'' ''2026-12-01T15:00:00-08:00'']\<rparr>"
  have c409: "contains ''HttpError 409 when requesting events: Conflict'' ''409''"
    and n403: "\<not> contains ''HttpError 409 when requesting events: Conflict'' ''403''"
    and c403: "contains ''HttpError 403 when requesting events: Forbidden'' ''403''"
    and n500: "\<not> contains ''HttpError 500 when requesting events: Backend Error'' ''403''"
              "\<not> contains ''HttpError 500 when requesting events: Backend Error'' ''409''"
    by simp_all
  have a: "create_google_calendar_event (refusing_env ''HttpError 409 when requesting events: Conflict'')
       development_config connected example_appointment =
     (Inr [(''success'', JBool False), (''error'', JStr ''Time slot conflict detected.'')], ?st)"
    using provider_error_mapping[of "refusing_env ''HttpError 409 when requesting events: Conflict''"
            development_config connected example_appointment
            "''HttpError 409 when requesting events: Conflict''" ?st]
          example_refused[of "''HttpError 409 when requesting events: Conflict''"] c409 n403
    by simp
  have b: "fst (create_google_calendar_event (refusing_env ''HttpError 403 when requesting events: Forbidden'')
       development_config connected example_appointment) =
     Inr [(''success'', JBool False),
          (''error'', JStr ''Calendar permission denied. Please re-authenticate.'')]"
    using provider_error_mapping[of "refusing_env ''HttpError 403 when requesting events: Forbidden''"
            development_config connected example_appointment
            "''HttpError 403 when requesting events: Forbidden''" ?st]
          example_refused[of "''HttpError 403 when requesting events: Forbidden''"] c403
    by simp
  have c: "fst (create_google_calendar_event (refusing_env ''HttpError 500 when requesting events: Backend Error'')
       development_config connected example_appointment) =
     Inl (HTTPException 500 ''Calendar error: HttpError 500 when requesting events: Backend Error'')"
    using provider_error_mapping[of "refusing_env ''HttpError 500 when requesting events: Backend Error''"
            development_config connected example_appointment
            "''HttpError 500 when requesting events: Backend Error''" ?st]
          example_refused[of "''HttpError 500 when requesting events: Backend Error''"] n500
    by simp
  have d: "create_google_calendar_event example_env development_config not_connected example_appointment =
     (Inl (HTTPException 401 ''Google Calendar not connected. Please authenticate first.''),
      not_connected)"
    using provider_error_mapping[of example_env development_config not_connected example_appointment
            _ not_connected "HTTPException 401 ''Google Calendar not connected. Please authenticate first.''"]
          example_not_connected_try
    by simp
  from a b c d example_refused[of "''HttpError 409 when requesting events: Conflict''"]
    example_not_connected_try
  show ?thesis by blast
qed





section \<open>Defaults and bounds of \<open>AppointmentDetails\<close>\<close>

lemma first_crash_None:
  "first_crash xs = None \<longleftrightarrow> (\<forall>x \<in> set xs. x = None)"
  by (induction xs rule: first_crash.induct) auto

lemma AppointmentDetails_init_Inr:
  assumes "AppointmentDetails_init env cfg kw = Inr a"
  shows "name_field (kw_name kw) = Valid (appt_name a)"
    and "phone_field (kw_phone kw) = Valid (appt_phone a)"
    and "email_field env (kw_email kw) = Valid (appt_email a)"
    and "date_field env (kw_date kw) = Valid (appt_date a)"
    and "time_field (kw_time kw) = Valid (appt_time a)"
    and "purpose_field (kw_purpose kw) = Valid (appt_purpose a)"
    and "timezone_field env cfg (kw_timezone kw) = Valid (appt_timezone a)"
    and "duration_minutes_field (kw_duration_minutes kw) = Valid (appt_duration_minutes a)"
proof -
  obtain r1 r2 r3 r4 r5 r6 r7 r8 where r:
    "r1 = name_field (kw_name kw)" "r2 = phone_field (kw_phone kw)"
    "r3 = email_field env (kw_email kw)" "r4 = date_field env (kw_date kw)"
    "r5 = time_field (kw_time kw)" "r6 = purpose_field (kw_purpose kw)"
    "r7 = timezone_field env cfg (kw_timezone kw)"
    "r8 = duration_minutes_field (kw_duration_minutes kw)"
    by blast
  have "(case (r1, r2, r3, r4, r5, r6, r7, r8) of
           (Valid n, Valid p, Valid e, Valid d, Valid t, Valid pu, Valid tz, Valid du) \<Rightarrow>
             (Inr \<lparr>appt_name = n, appt_phone = p, appt_email = e, appt_date = d,
                   appt_time = t, appt_purpose = pu, appt_timezone = tz,
                   appt_duration_minutes = du\<rparr> :: py_exn + AppointmentDetails)
         | _ \<Rightarrow> Inl (ValidationError (render_validation_error env
                         (errors_of r1 @ errors_of r2 @ errors_of r3 @
                          errors_of r4 @ errors_of r5 @ errors_of r6 @
                          errors_of r7 @ errors_of r8)))) = Inr a"
    using assms unfolding AppointmentDetails_init_def Let_def r[symmetric]
    by (simp split: option.splits)
  then have "r1 = Valid (appt_name a) \<and> r2 = Valid (appt_phone a) \<and> r3 = Valid (appt_email a)
     \<and> r4 = Valid (appt_date a) \<and> r5 = Valid (appt_time a) \<and> r6 = Valid (appt_purpose a)
     \<and> r7 = Valid (appt_timezone a) \<and> r8 = Valid (appt_duration_minutes a)"
    by - (cases r1; simp; cases r2; simp; cases r3; simp; cases r4; simp; cases r5; simp;
          cases r6; simp; cases r7; simp; cases r8; simp; auto)
  with r show "name_field (kw_name kw) = Valid (appt_name a)"
    and "phone_field (kw_phone kw) = Valid (appt_phone a)"
    and "email_field env (kw_email kw) = Valid (appt_email a)"
    and "date_field env (kw_date kw) = Valid (appt_date a)"
    and "time_field (kw_time kw) = Valid (appt_time a)"
    and "purpose_field (kw_purpose kw) = Valid (appt_purpose a)"
    and "timezone_field env cfg (kw_timezone kw) = Valid (appt_timezone a)"
    and "duration_minutes_field (kw_duration_minutes kw) = Valid (appt_duration_minutes a)"
    by simp_all
qed


lemma duration_minutes_field_Valid:
  assumes "duration_minutes_field given = Valid d"
  shows "(given = None \<and> d = 30) \<or> (given \<noteq> None \<and> 15 \<le> d \<and> d \<le> 480)"
  using assms
  by (auto simp: duration_minutes_field_def split: option.splits field_result.splits sum.splits
                 if_splits)

lemma duration_minutes_field_int:
  "(duration_minutes_field (Some (JInt d)) = Valid d) = (15 \<le> d \<and> d \<le> 480)"
  by (simp add: duration_minutes_field_def str_or_int_field_def)

lemma appointment_kwargs_defaults:
  "(map_of kv ''duration_minutes'' = None \<longrightarrow>
      kw_duration_minutes (appointment_kwargs cfg kv) = Some (JInt 60))
   \<and> (map_of kv ''purpose'' = None \<longrightarrow>
      kw_purpose (appointment_kwargs cfg kv) = Some (JStr ''Discovery Session''))
   \<and> (map_of kv ''timezone'' = None \<longrightarrow>
      kw_timezone (appointment_kwargs cfg kv) = Some (JStr (DEFAULT_TIMEZONE cfg)))"
  by (simp add: appointment_kwargs_def dict_get_def)

lemma handler_defaults_reach_the_value:
  assumes "AppointmentDetails_init env cfg (appointment_kwargs cfg kv) = Inr a"
  shows "(map_of kv ''duration_minutes'' = None \<longrightarrow> appt_duration_minutes a = 60)
       \<and> (map_of kv ''purpose'' = None \<longrightarrow> appt_purpose a = Some ''Discovery Session'')
       \<and> (map_of kv ''timezone'' = None \<longrightarrow> appt_timezone a = DEFAULT_TIMEZONE cfg)"
proof (intro conjI impI)
  assume "map_of kv ''duration_minutes'' = None"
  with AppointmentDetails_init_Inr(8)[OF assms] appointment_kwargs_defaults[of kv cfg]
  show "appt_duration_minutes a = 60"
    by (simp add: duration_minutes_field_def str_or_int_field_def)
next
  assume "map_of kv ''purpose'' = None"
  with AppointmentDetails_init_Inr(6)[OF assms] appointment_kwargs_defaults[of kv cfg]
  show "appt_purpose a = Some ''Discovery Session''"
    by (simp add: purpose_field_def)
next
  assume "map_of kv ''timezone'' = None"
  with AppointmentDetails_init_Inr(7)[OF assms] appointment_kwargs_defaults[of kv cfg]
  show "appt_timezone a = DEFAULT_TIMEZONE cfg"
    by (auto simp: timezone_field_def str_field_def run_validator_def validate_timezone_def
             split: if_splits)
qed

text \<open>
  Claim C9.  A constructed \<open>AppointmentDetails\<close> whose \<open>duration_minutes\<close> was left to
  the model has the default 30; one whose \<open>duration_minutes\<close> was given has a value
  from 15 to 480, both bounds included (an integer is accepted exactly when it lies in
  that range).  The handler never leaves the field out: when the arguments have no
  \<open>duration_minutes\<close> it passes 60, when they have no \<open>purpose\<close> it passes
  "Discovery Session", and when they have no \<open>timezone\<close> it passes the configured
  default; a value constructed by the handler from such arguments carries these.
\<close>

theorem duration_minutes_bounds_and_defaults:
  "(AppointmentDetails_init env cfg kw = Inr a \<longrightarrow>
      (kw_duration_minutes kw = None \<longrightarrow> appt_duration_minutes a = 30) \<and>
      (kw_duration_minutes kw \<noteq> None \<longrightarrow>
         15 \<le> appt_duration_minutes a \<and> appt_duration_minutes a \<le> 480))
   \<and> ((duration_minutes_field (Some (JInt d)) = Valid d) = (15 \<le> d \<and> d \<le> 480))
   \<and> (map_of kv ''duration_minutes'' = None \<longrightarrow>
        kw_duration_minutes (appointment_kwargs cfg kv) = Some (JInt 60))
   \<and> (map_of kv ''purpose'' = None \<longrightarrow>
        kw_purpose (appointment_kwargs cfg kv) = Some (JStr ''Discovery Session''))
   \<and> (map_of kv ''timezone'' = None \<longrightarrow>
        kw_timezone (appointment_kwargs cfg kv) = Some (JStr (DEFAULT_TIMEZONE cfg)))
   \<and> (AppointmentDetails_init env cfg (appointment_kwargs cfg kv) = Inr a' \<longrightarrow>
        (map_of kv ''duration_minutes'' = None \<longrightarrow> appt_duration_minutes a' = 60) \<and>
        (map_of kv ''purpose'' = None \<longrightarrow> appt_purpose a' = Some ''Discovery Session'') \<and>
        (map_of kv ''timezone'' = None \<longrightarrow> appt_timezone a' = DEFAULT_TIMEZONE cfg))"
proof -
  have 1: "AppointmentDetails_init env cfg kw = Inr a \<longrightarrow>
      (kw_duration_minutes kw = None \<longrightarrow> appt_duration_minutes a = 30) \<and>
      (kw_duration_minutes kw \<noteq> None \<longrightarrow>
         15 \<le> appt_duration_minutes a \<and> appt_duration_minutes a \<le> 480)"
  proof
    assume "AppointmentDetails_init env cfg kw = Inr a"
    from duration_minutes_field_Valid[OF AppointmentDetails_init_Inr(8)[OF this]]
    show "(kw_duration_minutes kw = None \<longrightarrow> appt_duration_minutes a = 30) \<and>
      (kw_duration_minutes kw \<noteq> None \<longrightarrow>
         15 \<le> appt_duration_minutes a \<and> appt_duration_minutes a \<le> 480)"
      by auto
  qed
  have 6: "AppointmentDetails_init env cfg (appointment_kwargs cfg kv) = Inr a' \<longrightarrow>
        (map_of kv ''duration_minutes'' = None \<longrightarrow> appt_duration_minutes a' = 60) \<and>
        (map_of kv ''purpose'' = None \<longrightarrow> appt_purpose a' = Some ''Discovery Session'') \<and>
        (map_of kv ''timezone'' = None \<longrightarrow> appt_timezone a' = DEFAULT_TIMEZONE cfg)"
    using handler_defaults_reach_the_value by blast
  from 1 duration_minutes_field_int[of d] appointment_kwargs_defaults[of kv cfg] 6
  show ?thesis by blast
qed

lemma example_direct:
  "AppointmentDetails_init example_env development_config direct_kwargs =
     Inr (example_appointment\<lparr>appt_duration_minutes := 30\<rparr>)"
  by (simp add: validation_eval direct_kwargs_def example_env_def development_config_def
                example_appointment_def)

lemma example_direct_45:
  "AppointmentDetails_init example_env development_config
     (direct_kwargs\<lparr>kw_duration_minutes := Some (JInt 45)\<rparr>) =
     Inr (example_appointment\<lparr>appt_duration_minutes := 45\<rparr>)"
  by (simp add: validation_eval direct_kwargs_def example_env_def development_config_def
                example_appointment_def)

theorem duration_minutes_bounds_and_defaults_witness:
  "AppointmentDetails_init example_env development_config direct_kwargs =
     Inr (example_appointment\<lparr>appt_duration_minutes := 30\<rparr>)
   \<and> kw_duration_minutes direct_kwargs = None
   \<and> appt_duration_minutes (example_appointment\<lparr>appt_duration_minutes := 30\<rparr>) = 30
   \<and> duration_minutes_field (Some (JInt 15)) = Valid 15
   \<and> duration_minutes_field (Some (JInt 480)) = Valid 480
   \<and> duration_minutes_field (Some (JInt 14)) \<noteq> Valid 14
   \<and> duration_minutes_field (Some (JInt 481)) \<noteq> Valid 481
   \<and> map_of booking_arguments ''duration_minutes'' = None
   \<and> map_of booking_arguments ''purpose'' = None
   \<and> map_of booking_arguments ''timezone'' = None
   \<and> kw_duration_minutes (appointment_kwargs development_config booking_arguments) = Some (JInt 60)
   \<and> AppointmentDetails_init example_env development_config
        (appointment_kwargs development_config booking_arguments) = Inr example_appointment
   \<and> appt_duration_minutes example_appointment = 60
   \<and> appt_purpose example_appointment = Some ''Discovery Session''
   \<and> appt_timezone example_appointment = DEFAULT_TIMEZONE development_config"
proof -
  note d = example_direct and v = example_booking_validated
  have n: "kw_duration_minutes direct_kwargs = None"
    by (simp add: direct_kwargs_def)
  have absent: "map_of booking_arguments ''duration_minutes'' = None"
    "map_of booking_arguments ''purpose'' = None"
    "map_of booking_arguments ''timezone'' = None"
    by (simp_all add: booking_arguments_def)
  from duration_minutes_bounds_and_defaults[of example_env development_config direct_kwargs
      "example_appointment\<lparr>appt_duration_minutes := 30\<rparr>" 15 booking_arguments example_appointment]
    d n v absent
  have a: "appt_duration_minutes (example_appointment\<lparr>appt_duration_minutes := 30\<rparr>) = 30"
    and b: "duration_minutes_field (Some (JInt 15)) = Valid 15"
    and c: "kw_duration_minutes (appointment_kwargs development_config booking_arguments) = Some (JInt 60)"
    and e: "appt_duration_minutes example_appointment = 60"
      "appt_purpose example_appointment = Some ''Discovery Session''"
      "appt_timezone example_appointment = DEFAULT_TIMEZONE development_config"
    by simp_all
  from duration_minutes_bounds_and_defaults[of example_env development_config direct_kwargs
      "example_appointment\<lparr>appt_duration_minutes := 30\<rparr>" 480 booking_arguments example_appointment]
  have f: "duration_minutes_field (Some (JInt 480)) = Valid 480" by simp
  from duration_minutes_bounds_and_defaults[of example_env development_config direct_kwargs
      "example_appointment\<lparr>appt_duration_minutes := 30\<rparr>" 14 booking_arguments example_appointment]
  have g: "duration_minutes_field (Some (JInt 14)) \<noteq> Valid 14" by simp
  from duration_minutes_bounds_and_defaults[of example_env development_config direct_kwargs
      "example_appointment\<lparr>appt_duration_minutes := 30\<rparr>" 481 booking_arguments example_appointment]
  have h: "duration_minutes_field (Some (JInt 481)) \<noteq> Valid 481" by simp
  from d n a b f g h absent c v e show ?thesis by blast
qed


section \<open>The order of the argument locations\<close>

lemma function_arguments_agrees:
  assumes "function_arguments x = Inr v"
  shows "agrees v (at_function_arguments x)"
proof (cases x)
  case (JObj kx)
  show ?thesis
  proof (cases "map_of kx ''function''")
    case None
    with JObj assms show ?thesis
      by (auto simp: function_arguments_def at_function_arguments_def bind_exn_def dict_get_def
                     agrees_def)
  next
    case (Some f)
    with JObj assms show ?thesis
      by (cases f)
         (auto simp: function_arguments_def at_function_arguments_def bind_exn_def dict_get_def
                     agrees_def split: option.splits)
  qed
qed (use assms in \<open>simp_all add: function_arguments_def bind_exn_def\<close>)

lemma first_function_arguments_agrees:
  assumes "bind_exn (py_index0 l) function_arguments = Inr v" and "truthy l"
  shows "agrees v (Option.bind (at_first l) at_function_arguments)"
proof (cases l)
  case (JArr xs)
  with assms show ?thesis
    by (cases xs) (auto simp: bind_exn_def intro: function_arguments_agrees)
next
  case (JStr s)
  with assms show ?thesis
    by (cases s) (auto simp: bind_exn_def function_arguments_def)
qed (use assms in \<open>simp_all add: bind_exn_def\<close>)

lemma agrees_JNull [simp]: "agrees JNull place = (\<not> yields place)"
  by (simp add: agrees_def)

lemma not_yields_falsy: "\<not> truthy v \<Longrightarrow> \<not> yields (Some v)"
  by simp

lemma args_from_message_agrees:
  assumes "args_from_message (JObj kv) = Inr a"
  shows "agrees a (spec_locations (JObj kv) ! 0)"
proof (cases "map_of kv ''message''")
  case None
  with assms show ?thesis
    by (simp add: args_from_message_def bind_exn_def spec_locations_def)
next
  case (Some m)
  show ?thesis
  proof (cases m)
    case (JObj km)
    show ?thesis
    proof (cases "map_of km ''toolCallList''")
      case None
      with JObj Some assms show ?thesis
        by (simp add: args_from_message_def bind_exn_def spec_locations_def dict_get_def)
    next
      case l: (Some l)
      show ?thesis
      proof (cases "truthy l")
        case True
        with l JObj Some assms
        have "bind_exn (py_index0 l) function_arguments = Inr a"
          by (simp add: args_from_message_def bind_exn_def dict_get_def)
        from first_function_arguments_agrees[OF this True] l JObj Some show ?thesis
          by (simp add: spec_locations_def)
      next
        case False
        with l JObj Some assms have "a = JNull"
          by (simp add: args_from_message_def bind_exn_def dict_get_def)
        moreover from False have "at_first l = None"
          by (cases l) auto
        ultimately show ?thesis using l JObj Some
          by (simp add: spec_locations_def)
      qed
    qed
  qed (use Some assms in \<open>simp_all add: args_from_message_def bind_exn_def\<close>)
qed

lemma args_from_toolCall_agrees:
  assumes "args_from_toolCall (JObj kv) a0 = Inr a" and "\<not> truthy a0"
  shows "agrees a (spec_locations (JObj kv) ! 1) \<or> (a = a0 \<and> \<not> yields (spec_locations (JObj kv) ! 1))"
proof (cases "map_of kv ''toolCall''")
  case None
  with assms show ?thesis
    by (simp add: args_from_toolCall_def bind_exn_def spec_locations_def)
next
  case (Some c)
  with assms have "function_arguments c = Inr a"
    by (simp add: args_from_toolCall_def bind_exn_def)
  from function_arguments_agrees[OF this] Some show ?thesis
    by (simp add: spec_locations_def)
qed

lemma args_from_toolCallList_agrees:
  assumes "args_from_toolCallList (JObj kv) a0 = Inr a" and "\<not> truthy a0"
  shows "agrees a (spec_locations (JObj kv) ! 2) \<or> (a = a0 \<and> \<not> yields (spec_locations (JObj kv) ! 2))"
proof (cases "map_of kv ''toolCallList''")
  case None
  with assms show ?thesis
    by (simp add: args_from_toolCallList_def bind_exn_def spec_locations_def)
next
  case (Some l)
  with assms have b: "bind_exn (py_index0 l) function_arguments = Inr a"
    by (simp add: args_from_toolCallList_def bind_exn_def)
  then have "truthy l"
    by (cases l) (auto simp: bind_exn_def split: list.splits)
  from first_function_arguments_agrees[OF b this] Some show ?thesis
    by (simp add: spec_locations_def)
qed

lemma args_from_function_agrees:
  assumes "args_from_function (JObj kv) a0 = Inr a" and "\<not> truthy a0"
  shows "agrees a (spec_locations (JObj kv) ! 3) \<or> (a = a0 \<and> \<not> yields (spec_locations (JObj kv) ! 3))"
proof (cases "map_of kv ''function''")
  case None
  with assms show ?thesis
    by (simp add: args_from_function_def bind_exn_def spec_locations_def)
next
  case (Some f)
  with assms show ?thesis
    by (cases f)
       (auto simp: args_from_function_def bind_exn_def spec_locations_def dict_get_def agrees_def
             split: option.splits)
qed

lemma args_from_body_agrees:
  assumes "args_from_body (JObj kv) a0 = Inr a" and "\<not> truthy a0"
  shows "agrees a (spec_locations (JObj kv) ! 4) \<or> (a = a0 \<and> \<not> yields (spec_locations (JObj kv) ! 4))"
  using assms
  by (cases kv)
     (auto simp: args_from_body_def bind_exn_def spec_locations_def agrees_def split: if_splits)

lemma later_steps_keep:
  "truthy a0 \<Longrightarrow> args_from_toolCall body a0 = Inr a0"
  "truthy a0 \<Longrightarrow> args_from_toolCallList body a0 = Inr a0"
  "truthy a0 \<Longrightarrow> args_from_function body a0 = Inr a0"
  "truthy a0 \<Longrightarrow> args_from_body body a0 = Inr a0"
  by (simp_all add: args_from_toolCall_def args_from_toolCallList_def args_from_function_def
                    args_from_body_def)


lemma spec_locations_five:
  "spec_locations b =
     [spec_locations b ! 0, spec_locations b ! 1, spec_locations b ! 2, spec_locations b ! 3,
      spec_locations b ! 4]"
  by (simp add: spec_locations_def)

lemma spec_extract_args_first:
  assumes "spec_locations b = [l0, l1, l2, l3, l4]"
  shows "yields l0 \<Longrightarrow> spec_extract_args b = l0"
    and "\<not> yields l0 \<Longrightarrow> yields l1 \<Longrightarrow> spec_extract_args b = l1"
    and "\<not> yields l0 \<Longrightarrow> \<not> yields l1 \<Longrightarrow> yields l2 \<Longrightarrow> spec_extract_args b = l2"
    and "\<not> yields l0 \<Longrightarrow> \<not> yields l1 \<Longrightarrow> \<not> yields l2 \<Longrightarrow> yields l3 \<Longrightarrow> spec_extract_args b = l3"
    and "\<not> yields l0 \<Longrightarrow> \<not> yields l1 \<Longrightarrow> \<not> yields l2 \<Longrightarrow> \<not> yields l3 \<Longrightarrow> yields l4 \<Longrightarrow>
           spec_extract_args b = l4"
    and "\<not> yields l0 \<Longrightarrow> \<not> yields l1 \<Longrightarrow> \<not> yields l2 \<Longrightarrow> \<not> yields l3 \<Longrightarrow> \<not> yields l4 \<Longrightarrow>
           spec_extract_args b = None"
  by (simp_all add: spec_extract_args_def assms)

lemma agrees_truthy: "agrees v place \<Longrightarrow> truthy v \<Longrightarrow> place = Some v \<and> yields place"
  by (simp add: agrees_def)

lemma agrees_falsy: "agrees v place \<Longrightarrow> \<not> truthy v \<Longrightarrow> \<not> yields place"
  by (simp add: agrees_def)

lemma step_agrees:
  assumes "agrees a place \<or> (a = a0 \<and> \<not> yields place)" and "\<not> truthy a0"
  shows "truthy a \<Longrightarrow> place = Some a \<and> yields place" and "\<not> truthy a \<Longrightarrow> \<not> yields place"
  using assms by (auto simp: agrees_def)

lemma extract_args_refines:
  assumes "extract_args (JObj kv) = Inr a"
  shows "if truthy a then spec_extract_args (JObj kv) = Some a
         else spec_extract_args (JObj kv) = None"
proof -
  let ?b = "JObj kv"
  note five = spec_locations_five[of ?b]
  from assms obtain a1 a2 a3 a4 where
    s1: "args_from_message ?b = Inr a1" and s2: "args_from_toolCall ?b a1 = Inr a2"
    and s3: "args_from_toolCallList ?b a2 = Inr a3" and s4: "args_from_function ?b a3 = Inr a4"
    and s5: "args_from_body ?b a4 = Inr a"
    by (auto simp: extract_args_def bind_exn_def split: sum.splits)
  note g1 = args_from_message_agrees[OF s1]
  show ?thesis
  proof (cases "truthy a1")
    case True
    with s2 s3 s4 s5 have "a = a1" by (simp add: later_steps_keep)
    with True agrees_truthy[OF g1 True] spec_extract_args_first(1)[OF five] show ?thesis
      by simp
  next
    case f1: False
    note n0 = agrees_falsy[OF g1 f1]
    note g2 = step_agrees[OF args_from_toolCall_agrees[OF s2 f1] f1]
    show ?thesis
    proof (cases "truthy a2")
      case True
      with s3 s4 s5 have "a = a2" by (simp add: later_steps_keep)
      with True g2(1)[OF True] n0 spec_extract_args_first(2)[OF five] show ?thesis
        by simp
    next
      case f2: False
      note n1 = g2(2)[OF f2]
      note g3 = step_agrees[OF args_from_toolCallList_agrees[OF s3 f2] f2]
      show ?thesis
      proof (cases "truthy a3")
        case True
        with s4 s5 have "a = a3" by (simp add: later_steps_keep)
        with True g3(1)[OF True] n0 n1 spec_extract_args_first(3)[OF five] show ?thesis
          by simp
      next
        case f3: False
        note n2 = g3(2)[OF f3]
        note g4 = step_agrees[OF args_from_function_agrees[OF s4 f3] f3]
        show ?thesis
        proof (cases "truthy a4")
          case True
          with s5 have "a = a4" by (simp add: later_steps_keep)
          with True g4(1)[OF True] n0 n1 n2 spec_extract_args_first(4)[OF five] show ?thesis
            by simp
        next
          case f4: False
          note n3 = g4(2)[OF f4]
          note g5 = step_agrees[OF args_from_body_agrees[OF s5 f4] f4]
          show ?thesis
          proof (cases "truthy a")
            case True
            with g5(1)[OF True] n0 n1 n2 n3 spec_extract_args_first(5)[OF five] show ?thesis
              by simp
          next
            case False
            with g5(2)[OF False] n0 n1 n2 n3 spec_extract_args_first(6)[OF five] show ?thesis
              by simp
          qed
        qed
      qed
    qed
  qed
qed

text \<open>
  Claim C7, as amended.  Let the body be a JSON object on which none of the look-ups of
  the handler fails.  Then the arguments the handler goes on with are the value of the
  first of the five places, in the order \<open>message.toolCallList[0].function.arguments\<close>,
  \<open>toolCall.function.arguments\<close>, \<open>toolCallList[0].function.arguments\<close>,
  \<open>function.arguments\<close>, the body itself when it has the keys \<open>name\<close> and
  \<open>email\<close>, that holds a non-empty value; and when none of them does, the handler
  answers "I had trouble reading the booking details. Could you try again?" with the
  tool-call identifier it found, and changes nothing.
\<close>

theorem arguments_found_in_order:
  assumes "utf8_decodable env raw" and "json_loads env raw = Inr (JObj kv)"
    and "extract_tool_call_id (JObj kv) = (tid, None)"
    and "extract_args (JObj kv) = Inr args"
  shows "(truthy args \<longrightarrow> spec_extract_args (JObj kv) = Some args)
       \<and> (\<not> truthy args \<longrightarrow>
            spec_extract_args (JObj kv) = None \<and>
            book_appointment_tool env cfg st raw =
              (Inr (vapi_response tid
                      (JStr ''I had trouble reading the booking details. Could you try again?'')),
               st))"
proof (intro conjI impI)
  assume "truthy args"
  with extract_args_refines[OF assms(4)] show "spec_extract_args (JObj kv) = Some args"
    by simp
next
  assume f: "\<not> truthy args"
  with extract_args_refines[OF assms(4)] show "spec_extract_args (JObj kv) = None"
    by simp
  from f assms(4) have "handle_tool_call env cfg st (JObj kv) tid =
      (Inr (vapi_response tid
              (JStr ''I had trouble reading the booking details. Could you try again?'')), st)"
    by (simp add: handle_tool_call_def)
  with book_appointment_tool_stages[OF assms(1-3)]
  show "book_appointment_tool env cfg st raw =
              (Inr (vapi_response tid
                      (JStr ''I had trouble reading the booking details. Could you try again?'')),
               st)"
    by simp
qed


lemma example_number_message:
  "utf8_decodable example_env number_message_text \<and>
   json_loads example_env number_message_text = Inr number_message_body \<and>
   spec_extract_args number_message_body = None \<and>
   book_appointment_tool example_env development_config connected number_message_text =
     (Inr (vapi_response JNull (JStr ''Something went wrong on our end. I'll try once more.'')),
      connected)"
  by (simp add: example_env_def example_json_loads_def example_bodies_def example_texts
                number_message_body_def spec_extract_args_def spec_locations_def
                book_appointment_tool_def extraction_eval except_clauses_def read_local_def)

lemma example_empty_list:
  "utf8_decodable example_env empty_list_text \<and>
   json_loads example_env empty_list_text = Inr empty_list_body \<and>
   spec_extract_args empty_list_body = None \<and>
   book_appointment_tool example_env development_config connected empty_list_text =
     (Inr (vapi_response JNull (JStr ''Something went wrong on our end. I'll try once more.'')),
      connected)"
  by (simp add: example_env_def example_json_loads_def example_bodies_def example_texts
                empty_list_body_def spec_extract_args_def spec_locations_def
                at_function_arguments_def
                book_appointment_tool_def extraction_eval except_clauses_def read_local_def)

text \<open>
  Claim C7 as it is stated fails: a body in which no place holds arguments is not always
  answered with the request to repeat the details.  When \<open>message\<close> is a number, the
  look-up \<open>body["message"].get\<close> raises, and the catch-all clause answers "Something
  went wrong on our end. I'll try once more.".
\<close>

theorem no_arguments_answer_counterexample:
  "\<not> (\<forall>env cfg st raw body.
        utf8_decodable env raw \<and> json_loads env raw = Inr body \<and> spec_extract_args body = None \<longrightarrow>
        (\<exists>tid. fst (book_appointment_tool env cfg st raw) =
           Inr (vapi_response tid
                  (JStr ''I had trouble reading the booking details. Could you try again?''))))"
proof
  assume "\<forall>env cfg st raw body.
        utf8_decodable env raw \<and> json_loads env raw = Inr body \<and> spec_extract_args body = None \<longrightarrow>
        (\<exists>tid. fst (book_appointment_tool env cfg st raw) =
           Inr (vapi_response tid
                  (JStr ''I had trouble reading the booking details. Could you try again?'')))"
  with example_number_message
  obtain tid where "fst (book_appointment_tool example_env development_config connected
                           number_message_text) =
           Inr (vapi_response tid
                  (JStr ''I had trouble reading the booking details. Could you try again?''))"
    by blast
  with example_number_message show False
    by (simp add: vapi_response_def)
qed

lemma example_no_arguments:
  "utf8_decodable example_env no_arguments_text \<and>
   json_loads example_env no_arguments_text = Inr no_arguments_body \<and>
   extract_tool_call_id no_arguments_body = (JStr ''call_3'', None) \<and>
   extract_args no_arguments_body = Inr JNull"
  by (simp add: example_env_def example_json_loads_def example_bodies_def example_texts
                no_arguments_body_def extraction_eval)

theorem arguments_found_in_order_witness:
  "utf8_decodable example_env no_arguments_text \<and>
   json_loads example_env no_arguments_text = Inr no_arguments_body \<and>
   extract_tool_call_id no_arguments_body = (JStr ''call_3'', None) \<and>
   extract_args no_arguments_body = Inr JNull \<and>
   \<not> truthy JNull \<and>
   spec_extract_args no_arguments_body = None \<and>
   book_appointment_tool example_env development_config connected no_arguments_text =
     (Inr (vapi_response (JStr ''call_3'')
             (JStr ''I had trouble reading the booking details. Could you try again?'')),
      connected) \<and>
   utf8_decodable example_env booking_text \<and>
   json_loads example_env booking_text = Inr booking_body \<and>
   extract_tool_call_id booking_body = (JStr ''call_1'', None) \<and>
   extract_args booking_body = Inr (JObj booking_arguments) \<and>
   truthy (JObj booking_arguments) \<and>
   spec_extract_args booking_body = Some (JObj booking_arguments)"
proof -
  note n = example_no_arguments and p = example_booking_parsed and x = example_booking_extracted
  have nb: "no_arguments_body = JObj [(''toolCall'', JObj [(''id'', JStr ''call_3'')])]"
    by (simp add: no_arguments_body_def)
  have bb: "booking_body = JObj [(''message'', JObj [(''toolCallList'', JArr
        [JObj [(''id'', JStr ''call_1''),
               (''function'', JObj [(''name'', JStr ''book_appointment''),
                                    (''arguments'', JObj booking_arguments)])]])])]"
    by (simp add: booking_body_def)
  from arguments_found_in_order[of example_env no_arguments_text
         "[(''toolCall'', JObj [(''id'', JStr ''call_3'')])]" "JStr ''call_3''" JNull
         development_config connected] n
  have a: "spec_extract_args no_arguments_body = None \<and>
   book_appointment_tool example_env development_config connected no_arguments_text =
     (Inr (vapi_response (JStr ''call_3'')
             (JStr ''I had trouble reading the booking details. Could you try again?'')),
      connected)"
    unfolding nb by simp
  from arguments_found_in_order[of example_env booking_text _ "JStr ''call_1''"
         "JObj booking_arguments" development_config connected] p x
  have b: "spec_extract_args booking_body = Some (JObj booking_arguments)"
    unfolding bb by simp
  have t: "\<not> truthy JNull" by simp
  from n a t p x b show ?thesis by blast
qed


end
